theory Spec2Isabelle
  imports Main
begin

section \<open>Python values\<close>

text \<open>
  The server (\<^verbatim>\<open>src/server.py\<close>) moves JSON documents around: it parses the bodies of
  upstream replies with \<^verbatim>\<open>response.json()\<close>, reads them with \<^verbatim>\<open>dict.get\<close>, and hands
  a list or a dict to \<^verbatim>\<open>json.dumps(_, indent=2)\<close>. The values it handles are the
  Python images of JSON documents: \<^verbatim>\<open>None\<close>, \<^verbatim>\<open>bool\<close>, \<^verbatim>\<open>int\<close>, \<^verbatim>\<open>str\<close>, \<^verbatim>\<open>list\<close>
  and \<^verbatim>\<open>dict\<close> with string keys. A dict is the list of its items in insertion order
  (keys distinct; a lookup takes the first binding of a key). A \<^verbatim>\<open>str\<close> is a
  \<^typ>\<open>string\<close>, one \<^typ>\<open>char\<close> for each code point below 256. JSON numbers with a
  fraction or an exponent (Python floats) are outside the model; the two upstream APIs
  send none.
\<close>

datatype json =
    JNull
  | JBool bool
  | JInt int
  | JStr string
  | JArr "json list"
  | JObj "(string \<times> json) list"

text \<open>Truth value testing (\<^verbatim>\<open>if x\<close>, \<^verbatim>\<open>not x\<close>, \<^verbatim>\<open>x and y\<close>, \<^verbatim>\<open>x or y\<close>).\<close>

fun py_truthy :: "json \<Rightarrow> bool" where
  "py_truthy JNull = False"
| "py_truthy (JBool b) = b"
| "py_truthy (JInt i) = (i \<noteq> 0)"
| "py_truthy (JStr s) = (s \<noteq> [])"
| "py_truthy (JArr xs) = (xs \<noteq> [])"
| "py_truthy (JObj d) = (d \<noteq> [])"

definition py_and :: "json \<Rightarrow> json \<Rightarrow> json" where
  "py_and a b = (if py_truthy a then b else a)"

definition py_or :: "json \<Rightarrow> json \<Rightarrow> json" where
  "py_or a b = (if py_truthy a then a else b)"

text \<open>\<^verbatim>\<open>type(x).__name__\<close>, as the interpreter's error messages print it.\<close>

fun type_name :: "json \<Rightarrow> string" where
  "type_name JNull = ''NoneType''"
| "type_name (JBool b) = ''bool''"
| "type_name (JInt i) = ''int''"
| "type_name (JStr s) = ''str''"
| "type_name (JArr xs) = ''list''"
| "type_name (JObj d) = ''dict''"

text \<open>\<^verbatim>\<open>d.get(key, default)\<close> on a dict; \<^verbatim>\<open>d.get(key)\<close> is \<^verbatim>\<open>d.get(key, None)\<close>.\<close>

definition dict_get :: "(string \<times> json) list \<Rightarrow> string \<Rightarrow> json \<Rightarrow> json" where
  "dict_get d k dflt = (case map_of d k of None \<Rightarrow> dflt | Some v \<Rightarrow> v)"

subsection \<open>\<^verbatim>\<open>str()\<close>, \<^verbatim>\<open>repr()\<close> and f-string formatting\<close>

fun digits :: "nat \<Rightarrow> string" where
  "digits n =
     (if n < 10 then [''0123456789'' ! n]
      else digits (n div 10) @ [''0123456789'' ! (n mod 10)])"

declare digits.simps [simp del]

definition str_int :: "int \<Rightarrow> string" where
  "str_int i = (if i < 0 then CHR ''-'' # digits (nat (- i)) else digits (nat i))"

definition hex_digit :: "nat \<Rightarrow> char" where
  "hex_digit n = ''0123456789abcdef'' ! n"

text \<open>
  \<^verbatim>\<open>repr\<close> of one character inside the quotes \<open>q\<close>: the quote and the backslash are
  escaped, tab, newline and carriage return have their letters, and the code points that
  are not printable (below 32, 127 to 160, and 173) are written \<^verbatim>\<open>\xNN\<close>.
\<close>

definition py_repr_char :: "char \<Rightarrow> char \<Rightarrow> string" where
  "py_repr_char q c =
     (let n = (of_char c :: nat) in
      if c = q \<or> c = CHR 0x5C then [CHR 0x5C, c]
      else if c = CHR 0x09 then [CHR 0x5C, CHR ''t'']
      else if c = CHR 0x0A then [CHR 0x5C, CHR ''n'']
      else if c = CHR 0x0D then [CHR 0x5C, CHR ''r'']
      else if n < 32 \<or> (127 \<le> n \<and> n \<le> 160) \<or> n = 173
        then [CHR 0x5C, CHR ''x'', hex_digit (n div 16), hex_digit (n mod 16)]
      else [c])"

text \<open>
  \<^verbatim>\<open>repr\<close> of a \<^verbatim>\<open>str\<close>: single quotes, unless the string holds a single quote and no
  double quote.
\<close>

definition py_repr_str :: "string \<Rightarrow> string" where
  "py_repr_str s =
     (let q = (if CHR 0x27 \<in> set s \<and> CHR 0x22 \<notin> set s then CHR 0x22 else CHR 0x27)
      in q # concat (map (py_repr_char q) s) @ [q])"

fun py_join :: "string \<Rightarrow> string list \<Rightarrow> string" where
  "py_join sep [] = []"
| "py_join sep [x] = x"
| "py_join sep (x # y # ys) = x @ sep @ py_join sep (y # ys)"

fun py_repr :: "json \<Rightarrow> string" where
  "py_repr JNull = ''None''"
| "py_repr (JBool b) = (if b then ''True'' else ''False'')"
| "py_repr (JInt i) = str_int i"
| "py_repr (JStr s) = py_repr_str s"
| "py_repr (JArr xs) = ''['' @ py_join '', '' (map py_repr xs) @ '']''"
| "py_repr (JObj d) =
     ''{'' @ py_join '', '' (map (\<lambda>kv. py_repr_str (fst kv) @ '': '' @ py_repr (snd kv)) d) @ ''}''"

text \<open>
  \<^verbatim>\<open>str(x)\<close>, which is also what an f-string field \<^verbatim>\<open>{x}\<close> inserts for these types: a
  \<^verbatim>\<open>str\<close> is itself, anything else is its \<^verbatim>\<open>repr\<close>.
\<close>

fun py_str :: "json \<Rightarrow> string" where
  "py_str (JStr s) = s"
| "py_str v = py_repr v"

subsection \<open>Exceptions\<close>

text \<open>
  The exceptions the four operations can meet, each with the text \<^verbatim>\<open>str(e)\<close> gives.
  \<^verbatim>\<open>RequestError\<close> is \<^verbatim>\<open>httpx.RequestError\<close> with its subclasses (timeouts, connection
  and protocol failures), raised by \<^verbatim>\<open>httpx.get\<close>; \<^verbatim>\<open>HTTPStatusError\<close> is raised by
  \<^verbatim>\<open>raise_for_status\<close> and is not a \<^verbatim>\<open>RequestError\<close>; \<^verbatim>\<open>JSONDecodeError\<close> is raised by
  \<^verbatim>\<open>response.json()\<close>; the last three come from the interpreter.
\<close>

datatype py_exception =
    RequestError string
  | HTTPStatusError string
  | JSONDecodeError string
  | TypeError string
  | AttributeError string
  | KeyError string

fun exception_str :: "py_exception \<Rightarrow> string" where
  "exception_str (RequestError m) = m"
| "exception_str (HTTPStatusError m) = m"
| "exception_str (JSONDecodeError m) = m"
| "exception_str (TypeError m) = m"
| "exception_str (AttributeError m) = m"
| "exception_str (KeyError m) = m"

definition quoted :: "string \<Rightarrow> string" where
  "quoted s = CHR 0x27 # s @ [CHR 0x27]"

text \<open>Calling \<^verbatim>\<open>x.get\<close> on a value that is not a dict.\<close>

definition no_attribute :: "json \<Rightarrow> string \<Rightarrow> py_exception" where
  "no_attribute v a =
     AttributeError (quoted (type_name v) @ '' object has no attribute '' @ quoted a)"

text \<open>\<^verbatim>\<open>xs[:n]\<close> on a list or a string; a negative \<open>n\<close> counts from the end.\<close>

definition py_prefix :: "int \<Rightarrow> 'a list \<Rightarrow> 'a list" where
  "py_prefix n xs = (if n < 0 then take (length xs - nat (- n)) xs else take (nat n) xs)"

text \<open>
  \<^verbatim>\<open>x[:n]\<close> on any value. A list and a string are sliced; \<^verbatim>\<open>None\<close>, a \<^verbatim>\<open>bool\<close> and an
  \<^verbatim>\<open>int\<close> are not subscriptable; a dict looks the slice object up as a key and does not
  find it (CPython 3.12 and later, where a slice is hashable).
\<close>

fun py_slice_to :: "json \<Rightarrow> int \<Rightarrow> py_exception + json" where
  "py_slice_to (JArr xs) n = Inr (JArr (py_prefix n xs))"
| "py_slice_to (JStr s) n = Inr (JStr (py_prefix n s))"
| "py_slice_to (JObj d) n = Inl (KeyError (''slice(None, '' @ str_int n @ '', None)''))"
| "py_slice_to v n = Inl (TypeError (quoted (type_name v) @ '' object is not subscriptable''))"

text \<open>
  The elements a \<^verbatim>\<open>for\<close> loop runs over: those of a list, the characters of a string, the
  keys of a dict.
\<close>

fun py_iter :: "json \<Rightarrow> py_exception + json list" where
  "py_iter (JArr xs) = Inr xs"
| "py_iter (JStr s) = Inr (map (\<lambda>c. JStr [c]) s)"
| "py_iter (JObj d) = Inr (map (\<lambda>kv. JStr (fst kv)) d)"
| "py_iter v = Inl (TypeError (quoted (type_name v) @ '' object is not iterable''))"

section \<open>The upstream APIs\<close>

text \<open>
  A request is what \<^verbatim>\<open>httpx.get(url, params=..., timeout=...)\<close> sends; the timeout is in
  seconds (the source writes \<^verbatim>\<open>10.0\<close> and \<^verbatim>\<open>5.0\<close>). The upstream answers a request either
  with a transport failure (the text of the \<^verbatim>\<open>httpx.RequestError\<close>) or with a response. Of
  a response the server uses two things: whether \<^verbatim>\<open>raise_for_status()\<close> raises (the
  text of the \<^verbatim>\<open>HTTPStatusError\<close>, if it does) and what \<^verbatim>\<open>json()\<close> returns (the text of
  the decoding error, or the parsed document). The upstream is a function of the request:
  the address, the parameters and the timeout decide the answer. An address that
  \<^verbatim>\<open>httpx\<close> itself would refuse to send is outside the model.
\<close>

record request =
  url :: string
  params :: "(string \<times> json) list"
  timeout :: int

record response =
  status_error :: "string option"
  json_body :: "string + json"

type_synonym upstream = "request \<Rightarrow> string + response"

definition HN_API_BASE :: string where
  "HN_API_BASE = ''https://hacker-news.firebaseio.com/v0''"

definition httpx_get :: "upstream \<Rightarrow> request \<Rightarrow> py_exception + response" where
  "httpx_get up rq = (case up rq of Inl m \<Rightarrow> Inl (RequestError m) | Inr r \<Rightarrow> Inr r)"

definition raise_for_status :: "response \<Rightarrow> py_exception + unit" where
  "raise_for_status r = (case status_error r of Some m \<Rightarrow> Inl (HTTPStatusError m) | None \<Rightarrow> Inr ())"

definition response_json :: "response \<Rightarrow> py_exception + json" where
  "response_json r = (case json_body r of Inl m \<Rightarrow> Inl (JSONDecodeError m) | Inr v \<Rightarrow> Inr v)"

text \<open>
  The three lines every fetch of the source consists of,
  \<^verbatim>\<open>response = httpx.get(...); response.raise_for_status(); response.json()\<close>,
  with the request appended to the log of requests issued so far.
\<close>

definition httpx_get_json ::
    "upstream \<Rightarrow> request \<Rightarrow> request list \<Rightarrow> (py_exception + json) \<times> request list" where
  "httpx_get_json up rq log =
     ((case httpx_get up rq of
         Inl e \<Rightarrow> Inl e
       | Inr r \<Rightarrow>
           (case raise_for_status r of
              Inl e \<Rightarrow> Inl e
            | Inr _ \<Rightarrow> response_json r)),
      log @ [rq])"

text \<open>
  The two \<^verbatim>\<open>except\<close> clauses that close every operation:
  \<^verbatim>\<open>except httpx.RequestError as e\<close> and \<^verbatim>\<open>except Exception as e\<close>.
\<close>

fun except_clauses :: "py_exception \<Rightarrow> json" where
  "except_clauses (RequestError m) = JObj [(''error'', JStr (''Request failed: '' @ m))]"
| "except_clauses e = JObj [(''error'', JStr (''Unexpected error: '' @ exception_str e))]"

section \<open>The operations\<close>

text \<open>
  Each operation returns the document it passes to \<^verbatim>\<open>json.dumps(_, indent=2)\<close>, paired
  with the requests it issued, in order. The \<^verbatim>\<open>try\<close> block of an operation is the chain
  of \<^verbatim>\<open>case\<close> distinctions; every exception it can raise ends in \<open>except_clauses\<close>.
  The two copies of each operation in the source are transcribed one by one.
\<close>

subsection \<open>The undecorated functions of the HTTP endpoint\<close>

text \<open>The dict that the loop of \<^verbatim>\<open>get_top_stories_http\<close> appends for a story (lines 39 to 48).\<close>

definition get_top_stories_http_entry :: "json \<Rightarrow> (string \<times> json) list \<Rightarrow> json" where
  "get_top_stories_http_entry story_id d =
     JObj
       [(''id'', dict_get d ''id'' JNull),
        (''title'', dict_get d ''title'' (JStr '''')),
        (''url'', dict_get d ''url''
           (JStr (''https://news.ycombinator.com/item?id='' @ py_str story_id))),
        (''score'', dict_get d ''score'' (JInt 0)),
        (''author'', dict_get d ''by'' (JStr '''')),
        (''comments'', dict_get d ''descendants'' (JInt 0)),
        (''time'', dict_get d ''time'' (JInt 0)),
        (''time_iso'',
           py_or (py_and (dict_get d ''time'' JNull) (JStr (py_str (dict_get d ''time'' JNull)))) JNull)]"

text \<open>The loop \<^verbatim>\<open>for story_id in story_ids\<close> of \<^verbatim>\<open>get_top_stories_http\<close>.\<close>

fun get_top_stories_http_loop ::
    "upstream \<Rightarrow> json list \<Rightarrow> json list \<Rightarrow> request list
       \<Rightarrow> (py_exception + json list) \<times> request list" where
  "get_top_stories_http_loop up [] stories log = (Inr stories, log)"
| "get_top_stories_http_loop up (story_id # story_ids) stories log =
     (case httpx_get_json up
             \<lparr>url = HN_API_BASE @ ''/item/'' @ py_str story_id @ ''.json'', params = [], timeout = 5\<rparr> log of
        (Inl e, log') \<Rightarrow> (Inl e, log')
      | (Inr story, log') \<Rightarrow>
          if py_truthy story then
            (case story of
               JObj d \<Rightarrow>
                 if dict_get d ''type'' JNull = JStr ''story'' then
                   get_top_stories_http_loop up story_ids (stories @ [get_top_stories_http_entry story_id d]) log'
                 else get_top_stories_http_loop up story_ids stories log'
             | _ \<Rightarrow> (Inl (no_attribute story ''get''), log'))
          else get_top_stories_http_loop up story_ids stories log')"

definition get_top_stories_http :: "upstream \<Rightarrow> int \<Rightarrow> json \<times> request list" where
  "get_top_stories_http up limit0 =
     (let limit = min (max limit0 1) 30 in
      case httpx_get_json up
             \<lparr>url = HN_API_BASE @ ''/topstories.json'', params = [], timeout = 10\<rparr> [] of
        (Inl e, log) \<Rightarrow> (except_clauses e, log)
      | (Inr listing, log) \<Rightarrow>
          (case py_slice_to listing limit of
             Inl e \<Rightarrow> (except_clauses e, log)
           | Inr sliced \<Rightarrow>
               (case py_iter sliced of
                  Inl e \<Rightarrow> (except_clauses e, log)
                | Inr story_ids \<Rightarrow>
                    (case get_top_stories_http_loop up story_ids [] log of
                       (Inl e, log') \<Rightarrow> (except_clauses e, log')
                     | (Inr stories, log') \<Rightarrow> (JArr stories, log')))))"

text \<open>The dict that the loop of \<^verbatim>\<open>get_new_stories_http\<close> appends for a story (lines 75 to 83).\<close>

definition get_new_stories_http_entry :: "json \<Rightarrow> (string \<times> json) list \<Rightarrow> json" where
  "get_new_stories_http_entry story_id d =
     JObj
       [(''id'', dict_get d ''id'' JNull),
        (''title'', dict_get d ''title'' (JStr '''')),
        (''url'', dict_get d ''url''
           (JStr (''https://news.ycombinator.com/item?id='' @ py_str story_id))),
        (''score'', dict_get d ''score'' (JInt 0)),
        (''author'', dict_get d ''by'' (JStr '''')),
        (''time'', dict_get d ''time'' (JInt 0)),
        (''time_iso'',
           py_or (py_and (dict_get d ''time'' JNull) (JStr (py_str (dict_get d ''time'' JNull)))) JNull)]"

text \<open>The loop \<^verbatim>\<open>for story_id in story_ids\<close> of \<^verbatim>\<open>get_new_stories_http\<close>.\<close>

fun get_new_stories_http_loop ::
    "upstream \<Rightarrow> json list \<Rightarrow> json list \<Rightarrow> request list
       \<Rightarrow> (py_exception + json list) \<times> request list" where
  "get_new_stories_http_loop up [] stories log = (Inr stories, log)"
| "get_new_stories_http_loop up (story_id # story_ids) stories log =
     (case httpx_get_json up
             \<lparr>url = HN_API_BASE @ ''/item/'' @ py_str story_id @ ''.json'', params = [], timeout = 5\<rparr> log of
        (Inl e, log') \<Rightarrow> (Inl e, log')
      | (Inr story, log') \<Rightarrow>
          if py_truthy story then
            (case story of
               JObj d \<Rightarrow>
                 if dict_get d ''type'' JNull = JStr ''story'' then
                   get_new_stories_http_loop up story_ids (stories @ [get_new_stories_http_entry story_id d]) log'
                 else get_new_stories_http_loop up story_ids stories log'
             | _ \<Rightarrow> (Inl (no_attribute story ''get''), log'))
          else get_new_stories_http_loop up story_ids stories log')"

definition get_new_stories_http :: "upstream \<Rightarrow> int \<Rightarrow> json \<times> request list" where
  "get_new_stories_http up limit0 =
     (let limit = min (max limit0 1) 30 in
      case httpx_get_json up
             \<lparr>url = HN_API_BASE @ ''/newstories.json'', params = [], timeout = 10\<rparr> [] of
        (Inl e, log) \<Rightarrow> (except_clauses e, log)
      | (Inr listing, log) \<Rightarrow>
          (case py_slice_to listing limit of
             Inl e \<Rightarrow> (except_clauses e, log)
           | Inr sliced \<Rightarrow>
               (case py_iter sliced of
                  Inl e \<Rightarrow> (except_clauses e, log)
                | Inr story_ids \<Rightarrow>
                    (case get_new_stories_http_loop up story_ids [] log of
                       (Inl e, log') \<Rightarrow> (except_clauses e, log')
                     | (Inr stories, log') \<Rightarrow> (JArr stories, log')))))"

text \<open>The dict \<^verbatim>\<open>formatted_story\<close> of \<^verbatim>\<open>get_story_http\<close> (lines 105 to 115).\<close>

definition get_story_http_formatted :: "int \<Rightarrow> (string \<times> json) list \<Rightarrow> json" where
  "get_story_http_formatted story_id d =
     JObj
       [(''id'', dict_get d ''id'' JNull),
        (''title'', dict_get d ''title'' (JStr '''')),
        (''url'', dict_get d ''url''
           (JStr (''https://news.ycombinator.com/item?id='' @ str_int story_id))),
        (''score'', dict_get d ''score'' (JInt 0)),
        (''author'', dict_get d ''by'' (JStr '''')),
        (''comments'', dict_get d ''descendants'' (JInt 0)),
        (''time'', dict_get d ''time'' (JInt 0)),
        (''text'', dict_get d ''text'' (JStr '''')),
        (''kids'', dict_get d ''kids'' (JArr []))]"

definition get_story_http :: "upstream \<Rightarrow> int \<Rightarrow> json \<times> request list" where
  "get_story_http up story_id =
     (case httpx_get_json up
             \<lparr>url = HN_API_BASE @ ''/item/'' @ str_int story_id @ ''.json'', params = [], timeout = 10\<rparr> [] of
        (Inl e, log) \<Rightarrow> (except_clauses e, log)
      | (Inr story, log) \<Rightarrow>
          if \<not> py_truthy story then
            (JObj [(''error'', JStr (''Story '' @ str_int story_id @ '' not found''))], log)
          else
            (case story of
               JObj d \<Rightarrow>
                 if dict_get d ''type'' JNull \<noteq> JStr ''story'' then
                   (JObj [(''error'', JStr (''Item '' @ str_int story_id @ '' is not a story''))], log)
                 else (get_story_http_formatted story_id d, log)
             | _ \<Rightarrow> (except_clauses (no_attribute story ''get''), log)))"

text \<open>The dict that the loop of \<^verbatim>\<open>search_stories_http\<close> appends for a hit (lines 143 to 152).\<close>

definition search_stories_http_entry :: "(string \<times> json) list \<Rightarrow> json" where
  "search_stories_http_entry d =
     JObj
       [(''id'', dict_get d ''objectID'' JNull),
        (''title'', dict_get d ''title'' (JStr '''')),
        (''url'', dict_get d ''url''
           (JStr (''https://news.ycombinator.com/item?id='' @ py_str (dict_get d ''objectID'' JNull)))),
        (''score'', dict_get d ''points'' (JInt 0)),
        (''author'', dict_get d ''author'' (JStr '''')),
        (''comments'', dict_get d ''num_comments'' (JInt 0)),
        (''time'', dict_get d ''created_at_i'' (JInt 0)),
        (''time_iso'', dict_get d ''created_at'' (JStr ''''))]"

text \<open>The loop \<^verbatim>\<open>for hit in data.get('hits', [])\<close> of \<^verbatim>\<open>search_stories_http\<close>.\<close>

fun search_stories_http_loop :: "json list \<Rightarrow> json list \<Rightarrow> py_exception + json list" where
  "search_stories_http_loop [] stories = Inr stories"
| "search_stories_http_loop (hit # hits) stories =
     (case hit of
        JObj d \<Rightarrow> search_stories_http_loop hits (stories @ [search_stories_http_entry d])
      | _ \<Rightarrow> Inl (no_attribute hit ''get''))"

definition search_stories_http :: "upstream \<Rightarrow> string \<Rightarrow> int \<Rightarrow> json \<times> request list" where
  "search_stories_http up query limit0 =
     (let limit = min (max limit0 1) 20 in
      case httpx_get_json up
             \<lparr>url = ''https://hn.algolia.com/api/v1/search'',
              params =
                [(''query'', JStr query), (''tags'', JStr ''story''), (''hitsPerPage'', JInt limit)],
              timeout = 10\<rparr> [] of
        (Inl e, log) \<Rightarrow> (except_clauses e, log)
      | (Inr data, log) \<Rightarrow>
          (case data of
             JObj d \<Rightarrow>
               (case py_iter (dict_get d ''hits'' (JArr [])) of
                  Inl e \<Rightarrow> (except_clauses e, log)
                | Inr hits \<Rightarrow>
                    (case search_stories_http_loop hits [] of
                       Inl e \<Rightarrow> (except_clauses e, log)
                     | Inr stories \<Rightarrow> (JArr stories, log)))
           | _ \<Rightarrow> (except_clauses (no_attribute data ''get''), log)))"

subsection \<open>The functions registered as tools with \<^verbatim>\<open>@mcp.tool()\<close>\<close>

text \<open>The dict that the loop of \<^verbatim>\<open>get_top_stories\<close> appends for a story (lines 187 to 196).\<close>

definition get_top_stories_entry :: "json \<Rightarrow> (string \<times> json) list \<Rightarrow> json" where
  "get_top_stories_entry story_id d =
     JObj
       [(''id'', dict_get d ''id'' JNull),
        (''title'', dict_get d ''title'' (JStr '''')),
        (''url'', dict_get d ''url''
           (JStr (''https://news.ycombinator.com/item?id='' @ py_str story_id))),
        (''score'', dict_get d ''score'' (JInt 0)),
        (''author'', dict_get d ''by'' (JStr '''')),
        (''comments'', dict_get d ''descendants'' (JInt 0)),
        (''time'', dict_get d ''time'' (JInt 0)),
        (''time_iso'',
           py_or (py_and (dict_get d ''time'' JNull) (JStr (py_str (dict_get d ''time'' JNull)))) JNull)]"

text \<open>The loop \<^verbatim>\<open>for story_id in story_ids\<close> of \<^verbatim>\<open>get_top_stories\<close>.\<close>

fun get_top_stories_loop ::
    "upstream \<Rightarrow> json list \<Rightarrow> json list \<Rightarrow> request list
       \<Rightarrow> (py_exception + json list) \<times> request list" where
  "get_top_stories_loop up [] stories log = (Inr stories, log)"
| "get_top_stories_loop up (story_id # story_ids) stories log =
     (case httpx_get_json up
             \<lparr>url = HN_API_BASE @ ''/item/'' @ py_str story_id @ ''.json'', params = [], timeout = 5\<rparr> log of
        (Inl e, log') \<Rightarrow> (Inl e, log')
      | (Inr story, log') \<Rightarrow>
          if py_truthy story then
            (case story of
               JObj d \<Rightarrow>
                 if dict_get d ''type'' JNull = JStr ''story'' then
                   get_top_stories_loop up story_ids (stories @ [get_top_stories_entry story_id d]) log'
                 else get_top_stories_loop up story_ids stories log'
             | _ \<Rightarrow> (Inl (no_attribute story ''get''), log'))
          else get_top_stories_loop up story_ids stories log')"

definition get_top_stories :: "upstream \<Rightarrow> int \<Rightarrow> json \<times> request list" where
  "get_top_stories up limit0 =
     (let limit = min (max limit0 1) 30 in
      case httpx_get_json up
             \<lparr>url = HN_API_BASE @ ''/topstories.json'', params = [], timeout = 10\<rparr> [] of
        (Inl e, log) \<Rightarrow> (except_clauses e, log)
      | (Inr listing, log) \<Rightarrow>
          (case py_slice_to listing limit of
             Inl e \<Rightarrow> (except_clauses e, log)
           | Inr sliced \<Rightarrow>
               (case py_iter sliced of
                  Inl e \<Rightarrow> (except_clauses e, log)
                | Inr story_ids \<Rightarrow>
                    (case get_top_stories_loop up story_ids [] log of
                       (Inl e, log') \<Rightarrow> (except_clauses e, log')
                     | (Inr stories, log') \<Rightarrow> (JArr stories, log')))))"

text \<open>The dict \<^verbatim>\<open>formatted_story\<close> of \<^verbatim>\<open>get_story\<close> (lines 226 to 236).\<close>

definition get_story_formatted :: "int \<Rightarrow> (string \<times> json) list \<Rightarrow> json" where
  "get_story_formatted story_id d =
     JObj
       [(''id'', dict_get d ''id'' JNull),
        (''title'', dict_get d ''title'' (JStr '''')),
        (''url'', dict_get d ''url''
           (JStr (''https://news.ycombinator.com/item?id='' @ str_int story_id))),
        (''score'', dict_get d ''score'' (JInt 0)),
        (''author'', dict_get d ''by'' (JStr '''')),
        (''comments'', dict_get d ''descendants'' (JInt 0)),
        (''time'', dict_get d ''time'' (JInt 0)),
        (''text'', dict_get d ''text'' (JStr '''')),
        (''kids'', dict_get d ''kids'' (JArr []))]"

definition get_story :: "upstream \<Rightarrow> int \<Rightarrow> json \<times> request list" where
  "get_story up story_id =
     (case httpx_get_json up
             \<lparr>url = HN_API_BASE @ ''/item/'' @ str_int story_id @ ''.json'', params = [], timeout = 10\<rparr> [] of
        (Inl e, log) \<Rightarrow> (except_clauses e, log)
      | (Inr story, log) \<Rightarrow>
          if \<not> py_truthy story then
            (JObj [(''error'', JStr (''Story '' @ str_int story_id @ '' not found''))], log)
          else
            (case story of
               JObj d \<Rightarrow>
                 if dict_get d ''type'' JNull \<noteq> JStr ''story'' then
                   (JObj [(''error'', JStr (''Item '' @ str_int story_id @ '' is not a story''))], log)
                 else (get_story_formatted story_id d, log)
             | _ \<Rightarrow> (except_clauses (no_attribute story ''get''), log)))"

text \<open>The dict that the loop of \<^verbatim>\<open>get_new_stories\<close> appends for a story (lines 271 to 279).\<close>

definition get_new_stories_entry :: "json \<Rightarrow> (string \<times> json) list \<Rightarrow> json" where
  "get_new_stories_entry story_id d =
     JObj
       [(''id'', dict_get d ''id'' JNull),
        (''title'', dict_get d ''title'' (JStr '''')),
        (''url'', dict_get d ''url''
           (JStr (''https://news.ycombinator.com/item?id='' @ py_str story_id))),
        (''score'', dict_get d ''score'' (JInt 0)),
        (''author'', dict_get d ''by'' (JStr '''')),
        (''time'', dict_get d ''time'' (JInt 0)),
        (''time_iso'',
           py_or (py_and (dict_get d ''time'' JNull) (JStr (py_str (dict_get d ''time'' JNull)))) JNull)]"

text \<open>The loop \<^verbatim>\<open>for story_id in story_ids\<close> of \<^verbatim>\<open>get_new_stories\<close>.\<close>

fun get_new_stories_loop ::
    "upstream \<Rightarrow> json list \<Rightarrow> json list \<Rightarrow> request list
       \<Rightarrow> (py_exception + json list) \<times> request list" where
  "get_new_stories_loop up [] stories log = (Inr stories, log)"
| "get_new_stories_loop up (story_id # story_ids) stories log =
     (case httpx_get_json up
             \<lparr>url = HN_API_BASE @ ''/item/'' @ py_str story_id @ ''.json'', params = [], timeout = 5\<rparr> log of
        (Inl e, log') \<Rightarrow> (Inl e, log')
      | (Inr story, log') \<Rightarrow>
          if py_truthy story then
            (case story of
               JObj d \<Rightarrow>
                 if dict_get d ''type'' JNull = JStr ''story'' then
                   get_new_stories_loop up story_ids (stories @ [get_new_stories_entry story_id d]) log'
                 else get_new_stories_loop up story_ids stories log'
             | _ \<Rightarrow> (Inl (no_attribute story ''get''), log'))
          else get_new_stories_loop up story_ids stories log')"

definition get_new_stories :: "upstream \<Rightarrow> int \<Rightarrow> json \<times> request list" where
  "get_new_stories up limit0 =
     (let limit = min (max limit0 1) 30 in
      case httpx_get_json up
             \<lparr>url = HN_API_BASE @ ''/newstories.json'', params = [], timeout = 10\<rparr> [] of
        (Inl e, log) \<Rightarrow> (except_clauses e, log)
      | (Inr listing, log) \<Rightarrow>
          (case py_slice_to listing limit of
             Inl e \<Rightarrow> (except_clauses e, log)
           | Inr sliced \<Rightarrow>
               (case py_iter sliced of
                  Inl e \<Rightarrow> (except_clauses e, log)
                | Inr story_ids \<Rightarrow>
                    (case get_new_stories_loop up story_ids [] log of
                       (Inl e, log') \<Rightarrow> (except_clauses e, log')
                     | (Inr stories, log') \<Rightarrow> (JArr stories, log')))))"

text \<open>The dict that the loop of \<^verbatim>\<open>search_stories\<close> appends for a hit (lines 316 to 325).\<close>

definition search_stories_entry :: "(string \<times> json) list \<Rightarrow> json" where
  "search_stories_entry d =
     JObj
       [(''id'', dict_get d ''objectID'' JNull),
        (''title'', dict_get d ''title'' (JStr '''')),
        (''url'', dict_get d ''url''
           (JStr (''https://news.ycombinator.com/item?id='' @ py_str (dict_get d ''objectID'' JNull)))),
        (''score'', dict_get d ''points'' (JInt 0)),
        (''author'', dict_get d ''author'' (JStr '''')),
        (''comments'', dict_get d ''num_comments'' (JInt 0)),
        (''time'', dict_get d ''created_at_i'' (JInt 0)),
        (''time_iso'', dict_get d ''created_at'' (JStr ''''))]"

text \<open>The loop \<^verbatim>\<open>for hit in data.get('hits', [])\<close> of \<^verbatim>\<open>search_stories\<close>.\<close>

fun search_stories_loop :: "json list \<Rightarrow> json list \<Rightarrow> py_exception + json list" where
  "search_stories_loop [] stories = Inr stories"
| "search_stories_loop (hit # hits) stories =
     (case hit of
        JObj d \<Rightarrow> search_stories_loop hits (stories @ [search_stories_entry d])
      | _ \<Rightarrow> Inl (no_attribute hit ''get''))"

definition search_stories :: "upstream \<Rightarrow> string \<Rightarrow> int \<Rightarrow> json \<times> request list" where
  "search_stories up query limit0 =
     (let limit = min (max limit0 1) 20 in
      case httpx_get_json up
             \<lparr>url = ''https://hn.algolia.com/api/v1/search'',
              params =
                [(''query'', JStr query), (''tags'', JStr ''story''), (''hitsPerPage'', JInt limit)],
              timeout = 10\<rparr> [] of
        (Inl e, log) \<Rightarrow> (except_clauses e, log)
      | (Inr data, log) \<Rightarrow>
          (case data of
             JObj d \<Rightarrow>
               (case py_iter (dict_get d ''hits'' (JArr [])) of
                  Inl e \<Rightarrow> (except_clauses e, log)
                | Inr hits \<Rightarrow>
                    (case search_stories_loop hits [] of
                       Inl e \<Rightarrow> (except_clauses e, log)
                     | Inr stories \<Rightarrow> (JArr stories, log)))
           | _ \<Rightarrow> (except_clauses (no_attribute data ''get''), log)))"

section \<open>Vocabulary of the properties\<close>

subsection \<open>The requests the operations issue\<close>

definition top_stories_request :: request where
  "top_stories_request = \<lparr>url = HN_API_BASE @ ''/topstories.json'', params = [], timeout = 10\<rparr>"

definition new_stories_request :: request where
  "new_stories_request = \<lparr>url = HN_API_BASE @ ''/newstories.json'', params = [], timeout = 10\<rparr>"

text \<open>The fetch of one item inside the loop of a listing operation.\<close>

definition item_request :: "json \<Rightarrow> request" where
  "item_request story_id =
     \<lparr>url = HN_API_BASE @ ''/item/'' @ py_str story_id @ ''.json'', params = [], timeout = 5\<rparr>"

text \<open>The fetch of the item by \<^verbatim>\<open>get_story\<close>.\<close>

definition story_request :: "int \<Rightarrow> request" where
  "story_request story_id =
     \<lparr>url = HN_API_BASE @ ''/item/'' @ str_int story_id @ ''.json'', params = [], timeout = 10\<rparr>"

definition search_request :: "string \<Rightarrow> int \<Rightarrow> request" where
  "search_request query n =
     \<lparr>url = ''https://hn.algolia.com/api/v1/search'',
      params = [(''query'', JStr query), (''tags'', JStr ''story''), (''hitsPerPage'', JInt n)],
      timeout = 10\<rparr>"

text \<open>What a fetch gives the caller: the parsed body, or the exception raised.\<close>

definition fetch :: "upstream \<Rightarrow> request \<Rightarrow> py_exception + json" where
  "fetch up rq = fst (httpx_get_json up rq [])"

text \<open>An upstream call fails: a transport failure, or a status that is not a success.\<close>

definition call_failed :: "upstream \<Rightarrow> request \<Rightarrow> bool" where
  "call_failed up rq = (case up rq of Inl m \<Rightarrow> True | Inr r \<Rightarrow> status_error r \<noteq> None)"

text \<open>The value of a key of a document that is a dict.\<close>

fun json_field :: "json \<Rightarrow> string \<Rightarrow> json option" where
  "json_field (JObj d) k = map_of d k"
| "json_field v k = None"

subsection \<open>One round of a listing loop\<close>

text \<open>
  The exception, if any, that the body of the loop raises for \<open>story_id\<close>: the fetch
  fails, or the item is a value that is true and has no \<^verbatim>\<open>get\<close>.
\<close>

definition item_raises :: "upstream \<Rightarrow> json \<Rightarrow> py_exception option" where
  "item_raises up story_id =
     (case fetch up (item_request story_id) of
        Inl e \<Rightarrow> Some e
      | Inr story \<Rightarrow>
          (if py_truthy story then (case story of JObj d \<Rightarrow> None | _ \<Rightarrow> Some (no_attribute story ''get''))
           else None))"

text \<open>The item fetched for \<open>story_id\<close>, when it is a dict whose type is \<^verbatim>\<open>"story"\<close>.\<close>

definition item_story :: "upstream \<Rightarrow> json \<Rightarrow> (string \<times> json) list option" where
  "item_story up story_id =
     (case fetch up (item_request story_id) of
        Inr (JObj d) \<Rightarrow> if dict_get d ''type'' JNull = JStr ''story'' then Some d else None
      | _ \<Rightarrow> None)"

text \<open>The common shape of the four listing loops, with the appended dict as a parameter.\<close>

fun fan_out ::
    "(json \<Rightarrow> (string \<times> json) list \<Rightarrow> json) \<Rightarrow> upstream \<Rightarrow> json list \<Rightarrow> json list \<Rightarrow> request list
       \<Rightarrow> (py_exception + json list) \<times> request list" where
  "fan_out entry up [] stories log = (Inr stories, log)"
| "fan_out entry up (story_id # story_ids) stories log =
     (case item_raises up story_id of
        Some e \<Rightarrow> (Inl e, log @ [item_request story_id])
      | None \<Rightarrow>
          fan_out entry up story_ids
            (case item_story up story_id of Some d \<Rightarrow> stories @ [entry story_id d] | None \<Rightarrow> stories)
            (log @ [item_request story_id]))"

text \<open>The common shape of the four listing operations.\<close>

definition listing_op ::
    "(json \<Rightarrow> (string \<times> json) list \<Rightarrow> json) \<Rightarrow> request \<Rightarrow> upstream \<Rightarrow> int \<Rightarrow> json \<times> request list" where
  "listing_op entry rq up limit0 =
     (let limit = min (max limit0 1) 30 in
      case fetch up rq of
        Inl e \<Rightarrow> (except_clauses e, [rq])
      | Inr listing \<Rightarrow>
          (case py_slice_to listing limit of
             Inl e \<Rightarrow> (except_clauses e, [rq])
           | Inr sliced \<Rightarrow>
               (case py_iter sliced of
                  Inl e \<Rightarrow> (except_clauses e, [rq])
                | Inr story_ids \<Rightarrow>
                    (case fan_out entry up story_ids [] [rq] of
                       (Inl e, log') \<Rightarrow> (except_clauses e, log')
                     | (Inr stories, log') \<Rightarrow> (JArr stories, log')))))"

text \<open>
  The stories among \<open>story_ids\<close>, in the order of \<open>story_ids\<close>, each as the dict the
  loop appends for it.
\<close>

definition listed_stories ::
    "(json \<Rightarrow> (string \<times> json) list \<Rightarrow> json) \<Rightarrow> upstream \<Rightarrow> json list \<Rightarrow> json list" where
  "listed_stories entry up story_ids =
     map (\<lambda>story_id. entry story_id (the (item_story up story_id)))
       (filter (\<lambda>story_id. item_story up story_id \<noteq> None) story_ids)"

subsection \<open>Two upstreams to run the operations against\<close>

definition reply :: "json \<Rightarrow> string + response" where
  "reply body = Inr \<lparr>status_error = None, json_body = Inr body\<rparr>"

text \<open>
  An items API whose top listing is \<^verbatim>\<open>[1,2,3,4,5,6]\<close>; item 3 is a job, the others are
  stories, and item 999999 does not exist (the body is \<^verbatim>\<open>null\<close>). The search API
  answers with two hits. Any other address refuses the connection.
\<close>

definition mock_upstream :: upstream where
  "mock_upstream rq =
     (case map_of
        [(''https://hacker-news.firebaseio.com/v0/topstories.json'',
            JArr [JInt 1, JInt 2, JInt 3, JInt 4, JInt 5, JInt 6]),
         (''https://hacker-news.firebaseio.com/v0/newstories.json'',
            JArr [JInt 6, JInt 3, JInt 2, JInt 4]),
         (''https://hacker-news.firebaseio.com/v0/item/1.json'',
            JObj [(''by'', JStr ''pg''), (''descendants'', JInt 15), (''id'', JInt 1),
                  (''score'', JInt 57), (''time'', JInt 1160418111),
                  (''title'', JStr ''Y Combinator''), (''type'', JStr ''story''),
                  (''url'', JStr ''http://ycombinator.com'')]),
         (''https://hacker-news.firebaseio.com/v0/item/2.json'',
            JObj [(''id'', JInt 2), (''type'', JStr ''story'')]),
         (''https://hacker-news.firebaseio.com/v0/item/3.json'',
            JObj [(''id'', JInt 3), (''title'', JStr ''Hiring''), (''type'', JStr ''job'')]),
         (''https://hacker-news.firebaseio.com/v0/item/4.json'',
            JObj [(''id'', JInt 4), (''time'', JInt 0), (''type'', JStr ''story'')]),
         (''https://hacker-news.firebaseio.com/v0/item/5.json'',
            JObj [(''id'', JInt 5), (''type'', JStr ''story'')]),
         (''https://hacker-news.firebaseio.com/v0/item/6.json'',
            JObj [(''id'', JInt 6), (''type'', JStr ''story'')]),
         (''https://hacker-news.firebaseio.com/v0/item/999999.json'', JNull),
         (''https://hn.algolia.com/api/v1/search'',
            JObj [(''hits'',
              JArr [JObj [(''objectID'', JStr ''101''), (''title'', JStr ''Rust''),
                          (''url'', JStr ''https://www.rust-lang.org''), (''points'', JInt 10),
                          (''author'', JStr ''alice''), (''num_comments'', JInt 3),
                          (''created_at_i'', JInt 1700000000),
                          (''created_at'', JStr ''2023-11-14T22:13:20Z'')],
                    JObj [(''objectID'', JStr ''102''), (''title'', JStr ''Rust in production'')]])])]
        (url rq) of
        Some body \<Rightarrow> reply body
      | None \<Rightarrow> Inl ''connection refused'')"

text \<open>
  The same upstream on a bad day: the fetch of item 2 times out, and the search API
  answers with a server error.
\<close>

definition mock_flaky :: upstream where
  "mock_flaky rq =
     (if url rq = ''https://hacker-news.firebaseio.com/v0/item/2.json'' then Inl ''timed out''
      else if url rq = ''https://hn.algolia.com/api/v1/search''
        then Inr \<lparr>status_error = Some ''Server error 503'', json_body = Inl ''Expecting value''\<rparr>
      else mock_upstream rq)"

text \<open>
  An items API whose top listing is \<^verbatim>\<open>[7]\<close> and whose item 7 is a story with
  \<^verbatim>\<open>"time": null\<close>.
\<close>

definition mock_null_time :: upstream where
  "mock_null_time rq =
     (case map_of
        [(''https://hacker-news.firebaseio.com/v0/topstories.json'', JArr [JInt 7]),
         (''https://hacker-news.firebaseio.com/v0/item/7.json'',
            JObj [(''id'', JInt 7), (''time'', JNull), (''type'', JStr ''story'')])]
        (url rq) of
        Some body \<Rightarrow> reply body
      | None \<Rightarrow> Inl ''connection refused'')"

section \<open>Lemmas\<close>

subsection \<open>The loops of the endpoint functions\<close>

lemma httpx_get_json_log: "httpx_get_json up rq log = (fetch up rq, log @ [rq])"
  by (simp add: httpx_get_json_def fetch_def)

lemma dict_get_empty [simp]: "dict_get [] k dflt = dflt"
  by (simp add: dict_get_def)

lemma top_http_loop_fan_out:
  "get_top_stories_http_loop up ids stories log = fan_out get_top_stories_http_entry up ids stories log"
proof (induction ids arbitrary: stories log)
  case Nil
  show ?case by simp
next
  case (Cons story_id ids)
  show ?case
  proof (cases "fetch up (item_request story_id)")
    case (Inl e)
    then show ?thesis
      by (simp add: httpx_get_json_log item_raises_def item_request_def)
  next
    case (Inr story)
    then show ?thesis
      using Cons.IH
      by (cases story) (simp_all add: httpx_get_json_log item_raises_def item_story_def item_request_def)
  qed
qed

lemma new_http_loop_fan_out:
  "get_new_stories_http_loop up ids stories log = fan_out get_new_stories_http_entry up ids stories log"
proof (induction ids arbitrary: stories log)
  case Nil
  show ?case by simp
next
  case (Cons story_id ids)
  show ?case
  proof (cases "fetch up (item_request story_id)")
    case (Inl e)
    then show ?thesis
      by (simp add: httpx_get_json_log item_raises_def item_request_def)
  next
    case (Inr story)
    then show ?thesis
      using Cons.IH
      by (cases story) (simp_all add: httpx_get_json_log item_raises_def item_story_def item_request_def)
  qed
qed

lemma top_http_listing_op:
  "get_top_stories_http up limit = listing_op get_top_stories_http_entry top_stories_request up limit"
  by (simp add: get_top_stories_http_def listing_op_def httpx_get_json_log top_http_loop_fan_out
      top_stories_request_def Let_def split: sum.split)

lemma new_http_listing_op:
  "get_new_stories_http up limit = listing_op get_new_stories_http_entry new_stories_request up limit"
  by (simp add: get_new_stories_http_def listing_op_def httpx_get_json_log new_http_loop_fan_out
      new_stories_request_def Let_def split: sum.split)

subsection \<open>The common loop\<close>

lemma except_clauses_error: "\<exists>m. except_clauses e = JObj [(''error'', JStr m)]"
  by (cases e) simp_all

lemma fan_out_ok:
  "\<forall>story_id \<in> set ids. item_raises up story_id = None \<Longrightarrow>
   fan_out entry up ids stories log =
     (Inr (stories @ listed_stories entry up ids), log @ map item_request ids)"
proof (induction ids arbitrary: stories log)
  case Nil
  show ?case by (simp add: listed_stories_def)
next
  case (Cons story_id ids)
  then show ?case
    by (cases "item_story up story_id") (simp_all add: listed_stories_def)
qed

lemma fan_out_fail:
  "story_id \<in> set ids \<Longrightarrow> item_raises up story_id \<noteq> None \<Longrightarrow>
   \<exists>e log'. fan_out entry up ids stories log = (Inl e, log')"
proof (induction ids arbitrary: stories log)
  case Nil
  then show ?case by simp
next
  case (Cons a ids)
  show ?case
  proof (cases "item_raises up a")
    case None
    with Cons.prems have "story_id \<in> set ids" by auto
    from Cons.IH [OF this Cons.prems(2)] None show ?thesis by simp
  next
    case (Some e)
    then show ?thesis by simp
  qed
qed

lemma fan_out_log:
  "\<exists>k \<le> length ids. snd (fan_out entry up ids stories log) = log @ map item_request (take k ids)"
proof (induction ids arbitrary: stories log)
  case Nil
  show ?case by simp
next
  case (Cons a ids)
  show ?case
  proof (cases "item_raises up a")
    case None
    obtain k where k: "k \<le> length ids"
      "snd (fan_out entry up ids
             (case item_story up a of Some d \<Rightarrow> stories @ [entry a d] | None \<Rightarrow> stories)
             (log @ [item_request a])) =
       (log @ [item_request a]) @ map item_request (take k ids)"
      using Cons.IH by blast
    have "Suc k \<le> length (a # ids)" using k(1) by simp
    moreover have "snd (fan_out entry up (a # ids) stories log) =
        log @ map item_request (take (Suc k) (a # ids))"
      using None k(2) by simp
    ultimately show ?thesis by blast
  next
    case (Some e)
    have "Suc 0 \<le> length (a # ids)" by simp
    moreover have "snd (fan_out entry up (a # ids) stories log) =
        log @ map item_request (take (Suc 0) (a # ids))"
      using Some by simp
    ultimately show ?thesis by blast
  qed
qed

lemma fan_out_Inr:
  assumes "fan_out entry up ids stories log = (Inr out, log')"
  shows "(\<forall>story_id \<in> set ids. item_raises up story_id = None)
    \<and> out = stories @ listed_stories entry up ids \<and> log' = log @ map item_request ids"
proof -
  have ok: "\<forall>story_id \<in> set ids. item_raises up story_id = None"
  proof (rule ccontr)
    assume "\<not> ?thesis"
    then obtain story_id where "story_id \<in> set ids" "item_raises up story_id \<noteq> None" by blast
    from fan_out_fail [OF this, of entry stories log] assms show False by auto
  qed
  from fan_out_ok [OF ok] assms show ?thesis using ok by simp
qed

lemma call_failed_fetch: "call_failed up rq \<Longrightarrow> \<exists>e. fetch up rq = Inl e"
  by (auto simp: call_failed_def fetch_def httpx_get_json_def httpx_get_def raise_for_status_def
      split: sum.splits option.splits)

lemma call_failed_item: "call_failed up (item_request story_id) \<Longrightarrow> item_raises up story_id \<noteq> None"
  using call_failed_fetch [of up "item_request story_id"] by (auto simp: item_raises_def)

subsection \<open>The common listing operation\<close>

lemma listing_op_clamp:
  "listing_op entry rq up limit = listing_op entry rq up (min (max limit 1) 30)"
  by (simp add: listing_op_def Let_def)

lemma py_prefix_take: "0 \<le> n \<Longrightarrow> py_prefix n xs = take (nat n) xs"
  by (simp add: py_prefix_def)

lemma sliced_length:
  assumes "0 \<le> n" "py_slice_to listing n = Inr sliced" "py_iter sliced = Inr story_ids"
  shows "length story_ids \<le> nat n"
  using assms by (cases listing) (auto simp: py_prefix_take)

lemma listing_op_cases:
  obtains
    (early) e where "listing_op entry rq up limit = (except_clauses e, [rq])"
  | (raised) story_ids e log' where
      "length story_ids \<le> 30"
      "fan_out entry up story_ids [] [rq] = (Inl e, log')"
      "listing_op entry rq up limit = (except_clauses e, log')"
  | (finished) listing story_ids stories log' where
      "fetch up rq = Inr listing" "length story_ids \<le> 30"
      "fan_out entry up story_ids [] [rq] = (Inr stories, log')"
      "listing_op entry rq up limit = (JArr stories, log')"
proof (cases "fetch up rq")
  case (Inl e)
  then have "listing_op entry rq up limit = (except_clauses e, [rq])"
    by (simp add: listing_op_def)
  then show ?thesis by (rule early)
next
  case listing: (Inr listing)
  show ?thesis
  proof (cases "py_slice_to listing (min (max limit 1) 30)")
    case (Inl e)
    with listing have "listing_op entry rq up limit = (except_clauses e, [rq])"
      by (simp add: listing_op_def)
    then show ?thesis by (rule early)
  next
    case sliced: (Inr sliced)
    show ?thesis
    proof (cases "py_iter sliced")
      case (Inl e)
      with listing sliced have "listing_op entry rq up limit = (except_clauses e, [rq])"
        by (simp add: listing_op_def)
      then show ?thesis by (rule early)
    next
      case ids: (Inr story_ids)
      have "length story_ids \<le> nat (min (max limit 1) 30)"
        using sliced ids by (intro sliced_length) auto
      then have len: "length story_ids \<le> 30" by simp
      obtain r log' where run: "fan_out entry up story_ids [] [rq] = (r, log')"
        by (cases "fan_out entry up story_ids [] [rq]")
      show ?thesis
      proof (cases r)
        case (Inl e)
        with listing sliced ids run
        have "listing_op entry rq up limit = (except_clauses e, log')"
          by (simp add: listing_op_def)
        with len run Inl show ?thesis by (intro raised) auto
      next
        case (Inr stories)
        with listing sliced ids run
        have "listing_op entry rq up limit = (JArr stories, log')"
          by (simp add: listing_op_def)
        with listing len run Inr show ?thesis by (intro finished) auto
      qed
    qed
  qed
qed

lemma listing_op_requests:
  "\<exists>story_ids. length story_ids \<le> 30
     \<and> snd (listing_op entry rq up limit) = rq # map item_request story_ids"
proof (cases rule: listing_op_cases [of entry rq up limit])
  case (early e)
  then have "snd (listing_op entry rq up limit) = rq # map item_request []" by simp
  then show ?thesis by (metis list.size(3) zero_le)
next
  case (raised story_ids e log')
  obtain k where "k \<le> length story_ids"
    "snd (fan_out entry up story_ids [] [rq]) = [rq] @ map item_request (take k story_ids)"
    using fan_out_log by blast
  with raised have "length (take k story_ids) \<le> 30"
    "snd (listing_op entry rq up limit) = rq # map item_request (take k story_ids)"
    by simp_all
  then show ?thesis by blast
next
  case (finished listing story_ids stories log')
  from fan_out_Inr [OF finished(3)] finished(4)
  have "snd (listing_op entry rq up limit) = rq # map item_request story_ids" by simp
  with finished(2) show ?thesis by blast
qed

lemma listing_op_shape:
  "(\<exists>m. fst (listing_op entry rq up limit) = JObj [(''error'', JStr m)])
   \<or> (\<exists>stories. fst (listing_op entry rq up limit) = JArr stories)"
  by (cases rule: listing_op_cases [of entry rq up limit]) (use except_clauses_error in auto)

lemma listing_op_failure:
  assumes "rq' \<in> set (snd (listing_op entry rq up limit))" "call_failed up rq'"
  shows "\<exists>m. fst (listing_op entry rq up limit) = JObj [(''error'', JStr m)]"
proof (cases rule: listing_op_cases [of entry rq up limit])
  case (early e)
  then show ?thesis using except_clauses_error by simp
next
  case (raised story_ids e log')
  then show ?thesis using except_clauses_error by simp
next
  case (finished listing story_ids stories log')
  note run = fan_out_Inr [OF finished(3)]
  from assms(1) finished(4) run have "rq' = rq \<or> rq' \<in> item_request ` set story_ids" by auto
  then show ?thesis
  proof
    assume "rq' = rq"
    with assms(2) finished(1) call_failed_fetch [of up rq] show ?thesis by auto
  next
    assume "rq' \<in> item_request ` set story_ids"
    then obtain story_id where "story_id \<in> set story_ids" "rq' = item_request story_id" by blast
    with assms(2) run call_failed_item [of up story_id] show ?thesis by auto
  qed
qed

lemma listing_op_ok:
  assumes "fetch up rq = Inr (JArr ids)"
    and "\<forall>story_id \<in> set (take (nat (min (max limit 1) 30)) ids). item_raises up story_id = None"
  shows "listing_op entry rq up limit =
     (JArr (listed_stories entry up (take (nat (min (max limit 1) 30)) ids)),
      rq # map item_request (take (nat (min (max limit 1) 30)) ids))"
proof -
  have "py_slice_to (JArr ids) (min (max limit 1) 30) = Inr (JArr (take (nat (min (max limit 1) 30)) ids))"
    by (simp add: py_prefix_take)
  with assms(1) fan_out_ok [OF assms(2), of entry "[]" "[rq]"] show ?thesis
    by (simp add: listing_op_def Let_def)
qed

lemma listing_op_prefix:
  assumes "fetch up rq = Inr (JArr ids)"
  shows "\<exists>k \<le> length (take (nat (min (max limit 1) 30)) ids).
     snd (listing_op entry rq up limit) =
       rq # map item_request (take k (take (nat (min (max limit 1) 30)) ids))"
proof -
  let ?ids = "take (nat (min (max limit 1) 30)) ids"
  have sl: "py_slice_to (JArr ids) (min (max limit 1) 30) = Inr (JArr ?ids)"
    by (simp add: py_prefix_take)
  obtain k where k: "k \<le> length ?ids"
    "snd (fan_out entry up ?ids [] [rq]) = [rq] @ map item_request (take k ?ids)"
    using fan_out_log by blast
  have "snd (listing_op entry rq up limit) = snd (fan_out entry up ?ids [] [rq])"
    using assms sl by (simp add: listing_op_def Let_def split: prod.split sum.split)
  with k show ?thesis by auto
qed

lemma listed_stories_provenance:
  "e \<in> set (listed_stories entry up ids) \<Longrightarrow>
   \<exists>story_id d. story_id \<in> set ids \<and> item_story up story_id = Some d \<and> e = entry story_id d"
  by (auto simp: listed_stories_def)

lemma listing_op_provenance:
  assumes "fst (listing_op entry rq up limit) = JArr out" "e \<in> set out"
  shows "\<exists>story_id d. item_story up story_id = Some d \<and> e = entry story_id d"
proof (cases rule: listing_op_cases [of entry rq up limit])
  case (early e')
  with assms(1) except_clauses_error [of e'] show ?thesis by auto
next
  case (raised story_ids e' log')
  with assms(1) except_clauses_error [of e'] show ?thesis by auto
next
  case (finished listing story_ids stories log')
  from fan_out_Inr [OF finished(3)] finished(4) assms have "e \<in> set (listed_stories entry up story_ids)"
    by simp
  from listed_stories_provenance [OF this] show ?thesis by blast
qed

subsection \<open>The tool functions and the endpoint functions\<close>

lemma get_top_stories_loop_fan_out:
  "get_top_stories_loop up ids stories log = fan_out get_top_stories_entry up ids stories log"
proof (induction ids arbitrary: stories log)
  case Nil
  show ?case by simp
next
  case (Cons story_id ids)
  show ?case
  proof (cases "fetch up (item_request story_id)")
    case (Inl e)
    then show ?thesis
      by (simp add: httpx_get_json_log item_raises_def item_request_def)
  next
    case (Inr story)
    then show ?thesis
      using Cons.IH
      by (cases story) (simp_all add: httpx_get_json_log item_raises_def item_story_def item_request_def)
  qed
qed

lemma get_new_stories_loop_fan_out:
  "get_new_stories_loop up ids stories log = fan_out get_new_stories_entry up ids stories log"
proof (induction ids arbitrary: stories log)
  case Nil
  show ?case by simp
next
  case (Cons story_id ids)
  show ?case
  proof (cases "fetch up (item_request story_id)")
    case (Inl e)
    then show ?thesis
      by (simp add: httpx_get_json_log item_raises_def item_request_def)
  next
    case (Inr story)
    then show ?thesis
      using Cons.IH
      by (cases story) (simp_all add: httpx_get_json_log item_raises_def item_story_def item_request_def)
  qed
qed

lemma top_listing_op:
  "get_top_stories up limit = listing_op get_top_stories_entry top_stories_request up limit"
  by (simp add: get_top_stories_def listing_op_def httpx_get_json_log get_top_stories_loop_fan_out
      top_stories_request_def Let_def split: sum.split)

lemma new_listing_op:
  "get_new_stories up limit = listing_op get_new_stories_entry new_stories_request up limit"
  by (simp add: get_new_stories_def listing_op_def httpx_get_json_log get_new_stories_loop_fan_out
      new_stories_request_def Let_def split: sum.split)

lemma top_entry_eq: "get_top_stories_http_entry = get_top_stories_entry"
  by (intro ext) (simp add: get_top_stories_http_entry_def get_top_stories_entry_def)

lemma new_entry_eq: "get_new_stories_http_entry = get_new_stories_entry"
  by (intro ext) (simp add: get_new_stories_http_entry_def get_new_stories_entry_def)

lemma top_http_eq: "get_top_stories_http up limit = get_top_stories up limit"
  by (simp add: top_http_listing_op top_listing_op top_entry_eq)

lemma new_http_eq: "get_new_stories_http up limit = get_new_stories up limit"
  by (simp add: new_http_listing_op new_listing_op new_entry_eq)

lemma story_formatted_eq: "get_story_http_formatted = get_story_formatted"
  by (intro ext) (simp add: get_story_http_formatted_def get_story_formatted_def)

lemma story_http_eq: "get_story_http up story_id = get_story up story_id"
  unfolding get_story_http_def get_story_def story_formatted_eq by (rule refl)

lemma search_entry_eq: "search_stories_http_entry = search_stories_entry"
  by (intro ext) (simp add: search_stories_http_entry_def search_stories_entry_def)

lemma search_loop_eq: "search_stories_http_loop hits stories = search_stories_loop hits stories"
  by (induction hits arbitrary: stories) (simp_all add: search_entry_eq split: json.split)

lemma search_http_eq: "search_stories_http up query limit = search_stories up query limit"
  unfolding search_stories_http_def search_stories_def search_loop_eq by (rule refl)

subsection \<open>\<^verbatim>\<open>get_story\<close> and \<^verbatim>\<open>search_stories\<close>\<close>

lemma get_story_unfold:
  "get_story up story_id =
     ((case fetch up (story_request story_id) of
         Inl e \<Rightarrow> except_clauses e
       | Inr story \<Rightarrow>
           if \<not> py_truthy story then
             JObj [(''error'', JStr (''Story '' @ str_int story_id @ '' not found''))]
           else
             (case story of
                JObj d \<Rightarrow>
                  if dict_get d ''type'' JNull \<noteq> JStr ''story'' then
                    JObj [(''error'', JStr (''Item '' @ str_int story_id @ '' is not a story''))]
                  else get_story_formatted story_id d
              | _ \<Rightarrow> except_clauses (no_attribute story ''get''))),
      [story_request story_id])"
  by (simp add: get_story_def httpx_get_json_log story_request_def split: sum.split json.split)

lemma get_story_shape:
  "(\<exists>m. fst (get_story up story_id) = JObj [(''error'', JStr m)])
   \<or> (\<exists>d. fst (get_story up story_id) = get_story_formatted story_id d)"
  using except_clauses_error by (auto simp: get_story_unfold split: sum.split json.split)

lemma get_story_failure:
  assumes "rq \<in> set (snd (get_story up story_id))" "call_failed up rq"
  shows "\<exists>m. fst (get_story up story_id) = JObj [(''error'', JStr m)]"
proof -
  from assms(1) have "rq = story_request story_id" by (simp add: get_story_unfold)
  with assms(2) obtain e where "fetch up (story_request story_id) = Inl e"
    using call_failed_fetch by blast
  then show ?thesis using except_clauses_error by (simp add: get_story_unfold)
qed

lemma search_stories_unfold:
  "search_stories up query limit =
     ((case fetch up (search_request query (min (max limit 1) 20)) of
         Inl e \<Rightarrow> except_clauses e
       | Inr data \<Rightarrow>
           (case data of
              JObj d \<Rightarrow>
                (case py_iter (dict_get d ''hits'' (JArr [])) of
                   Inl e \<Rightarrow> except_clauses e
                 | Inr hits \<Rightarrow>
                     (case search_stories_loop hits [] of
                        Inl e \<Rightarrow> except_clauses e
                      | Inr stories \<Rightarrow> JArr stories))
            | _ \<Rightarrow> except_clauses (no_attribute data ''get''))),
      [search_request query (min (max limit 1) 20)])"
  by (simp add: search_stories_def httpx_get_json_log search_request_def Let_def
      split: sum.split json.split)

lemma search_stories_shape:
  "(\<exists>m. fst (search_stories up query limit) = JObj [(''error'', JStr m)])
   \<or> (\<exists>stories. fst (search_stories up query limit) = JArr stories)"
  using except_clauses_error by (auto simp: search_stories_unfold split: sum.split json.split)

lemma search_stories_failure:
  assumes "rq \<in> set (snd (search_stories up query limit))" "call_failed up rq"
  shows "\<exists>m. fst (search_stories up query limit) = JObj [(''error'', JStr m)]"
proof -
  from assms(1) have "rq = search_request query (min (max limit 1) 20)"
    by (simp add: search_stories_unfold)
  with assms(2) obtain e where "fetch up (search_request query (min (max limit 1) 20)) = Inl e"
    using call_failed_fetch by blast
  then show ?thesis using except_clauses_error by (simp add: search_stories_unfold)
qed

lemma search_stories_loop_dicts:
  "search_stories_loop (map JObj ds) stories = Inr (stories @ map search_stories_entry ds)"
  by (induction ds arbitrary: stories) simp_all

subsection \<open>The \<^verbatim>\<open>time_iso\<close> field\<close>

lemma digits_not_empty: "digits n \<noteq> []"
  by (subst digits.simps) simp

lemma py_str_not_empty: "py_truthy v \<Longrightarrow> py_str v \<noteq> []"
  by (cases v) (simp_all add: str_int_def digits_not_empty)

lemma time_iso_value:
  "py_or (py_and t (JStr (py_str t))) JNull = (if py_truthy t then JStr (py_str t) else JNull)"
  by (simp add: py_or_def py_and_def py_str_not_empty)

lemma listing_time_iso:
  "json_field (get_top_stories_entry story_id d) ''time_iso'' =
     Some (if py_truthy (dict_get d ''time'' JNull) then JStr (py_str (dict_get d ''time'' JNull)) else JNull)"
  "json_field (get_new_stories_entry story_id d) ''time_iso'' =
     Some (if py_truthy (dict_get d ''time'' JNull) then JStr (py_str (dict_get d ''time'' JNull)) else JNull)"
  by (simp_all add: get_top_stories_entry_def get_new_stories_entry_def time_iso_value)

subsection \<open>The two upstreams, evaluated\<close>

lemmas eval_defs = fetch_def httpx_get_json_def httpx_get_def raise_for_status_def response_json_def
  mock_upstream_def mock_flaky_def reply_def top_stories_request_def new_stories_request_def
  item_request_def story_request_def search_request_def HN_API_BASE_def str_int_def digits.simps

lemma mock_top:
  "fetch mock_upstream top_stories_request = Inr (JArr [JInt 1, JInt 2, JInt 3, JInt 4, JInt 5, JInt 6])"
  by (simp add: eval_defs)

lemma mock_new:
  "fetch mock_upstream new_stories_request = Inr (JArr [JInt 6, JInt 3, JInt 2, JInt 4])"
  by (simp add: eval_defs)

lemma mock_items:
  "fetch mock_upstream (item_request (JInt 1)) =
     Inr (JObj [(''by'', JStr ''pg''), (''descendants'', JInt 15), (''id'', JInt 1),
                (''score'', JInt 57), (''time'', JInt 1160418111),
                (''title'', JStr ''Y Combinator''), (''type'', JStr ''story''),
                (''url'', JStr ''http://ycombinator.com'')])"
  "fetch mock_upstream (item_request (JInt 2)) = Inr (JObj [(''id'', JInt 2), (''type'', JStr ''story'')])"
  "fetch mock_upstream (item_request (JInt 3)) =
     Inr (JObj [(''id'', JInt 3), (''title'', JStr ''Hiring''), (''type'', JStr ''job'')])"
  "fetch mock_upstream (item_request (JInt 4)) =
     Inr (JObj [(''id'', JInt 4), (''time'', JInt 0), (''type'', JStr ''story'')])"
  "fetch mock_upstream (item_request (JInt 5)) = Inr (JObj [(''id'', JInt 5), (''type'', JStr ''story'')])"
  "fetch mock_upstream (item_request (JInt 6)) = Inr (JObj [(''id'', JInt 6), (''type'', JStr ''story'')])"
  by (simp_all add: eval_defs)

lemma mock_item_raises:
  "item_raises mock_upstream (JInt 1) = None" "item_raises mock_upstream (JInt 2) = None"
  "item_raises mock_upstream (JInt 3) = None" "item_raises mock_upstream (JInt 4) = None"
  "item_raises mock_upstream (JInt 5) = None" "item_raises mock_upstream (JInt 6) = None"
  by (simp_all add: item_raises_def mock_items)

lemma mock_item_story:
  "item_story mock_upstream (JInt 1) =
     Some [(''by'', JStr ''pg''), (''descendants'', JInt 15), (''id'', JInt 1),
           (''score'', JInt 57), (''time'', JInt 1160418111),
           (''title'', JStr ''Y Combinator''), (''type'', JStr ''story''),
           (''url'', JStr ''http://ycombinator.com'')]"
  "item_story mock_upstream (JInt 2) = Some [(''id'', JInt 2), (''type'', JStr ''story'')]"
  "item_story mock_upstream (JInt 3) = None"
  "item_story mock_upstream (JInt 4) = Some [(''id'', JInt 4), (''time'', JInt 0), (''type'', JStr ''story'')]"
  "item_story mock_upstream (JInt 5) = Some [(''id'', JInt 5), (''type'', JStr ''story'')]"
  "item_story mock_upstream (JInt 6) = Some [(''id'', JInt 6), (''type'', JStr ''story'')]"
  by (simp_all add: item_story_def mock_items dict_get_def)

lemma mock_stories:
  "fetch mock_upstream (story_request 999999) = Inr JNull"
  "fetch mock_upstream (story_request 3) =
     Inr (JObj [(''id'', JInt 3), (''title'', JStr ''Hiring''), (''type'', JStr ''job'')])"
  "fetch mock_upstream (story_request 1) =
     Inr (JObj [(''by'', JStr ''pg''), (''descendants'', JInt 15), (''id'', JInt 1),
                (''score'', JInt 57), (''time'', JInt 1160418111),
                (''title'', JStr ''Y Combinator''), (''type'', JStr ''story''),
                (''url'', JStr ''http://ycombinator.com'')])"
  by (simp_all add: eval_defs)

lemma mock_flaky_calls:
  "fetch mock_flaky top_stories_request = Inr (JArr [JInt 1, JInt 2, JInt 3, JInt 4, JInt 5, JInt 6])"
  "fetch mock_flaky new_stories_request = Inr (JArr [JInt 6, JInt 3, JInt 2, JInt 4])"
  "call_failed mock_flaky (item_request (JInt 2))"
  "call_failed mock_flaky (story_request 2)"
  "call_failed mock_flaky (search_request ''rust'' 2)"
  by (simp_all add: eval_defs call_failed_def)

lemma search_stories_clamp:
  "search_stories up query limit = search_stories up query (min (max limit 1) 20)"
  by (simp add: search_stories_unfold)

lemma mock_flaky_items:
  "item_raises mock_flaky (JInt 1) = None" "item_raises mock_flaky (JInt 3) = None"
  "item_raises mock_flaky (JInt 6) = None"
  "item_raises mock_flaky (JInt 2) = Some (RequestError ''timed out'')"
  "item_story mock_flaky (JInt 3) = None"
  "item_story mock_flaky (JInt 1) \<noteq> None" "item_story mock_flaky (JInt 6) \<noteq> None"
  by (simp_all add: item_raises_def item_story_def eval_defs dict_get_def)

lemma mock_flaky_top_stories:
  "get_top_stories mock_flaky 5 =
     (JObj [(''error'', JStr ''Request failed: timed out'')],
      [top_stories_request, item_request (JInt 1), item_request (JInt 2)])"
  by (simp add: top_listing_op listing_op_def mock_flaky_calls mock_flaky_items py_prefix_def
      split: option.split)

lemma mock_flaky_new_stories:
  "get_new_stories mock_flaky 10 =
     (JObj [(''error'', JStr ''Request failed: timed out'')],
      [new_stories_request, item_request (JInt 6), item_request (JInt 3), item_request (JInt 2)])"
  by (simp add: new_listing_op listing_op_def mock_flaky_calls mock_flaky_items py_prefix_def
      split: option.split)

lemma mock_flaky_story:
  "get_story mock_flaky 2 =
     (JObj [(''error'', JStr ''Request failed: timed out'')], [story_request 2])"
  by (simp add: get_story_unfold eval_defs)

lemma mock_flaky_search:
  "search_stories mock_flaky ''rust'' 2 =
     (JObj [(''error'', JStr ''Unexpected error: Server error 503'')], [search_request ''rust'' 2])"
  by (simp add: search_stories_unfold eval_defs)

lemma item_story_SomeD:
  "item_story up story_id = Some d \<Longrightarrow>
   fetch up (item_request story_id) = Inr (JObj d) \<and> dict_get d ''type'' JNull = JStr ''story''"
  by (auto simp: item_story_def split: sum.splits json.splits if_splits)

lemma not_story_skipped:
  assumes "fetch up (item_request story_id) = Inr story"
    and "\<not> py_truthy story \<or> (\<exists>d. story = JObj d \<and> dict_get d ''type'' JNull \<noteq> JStr ''story'')"
  shows "item_raises up story_id = None \<and> item_story up story_id = None"
  using assms by (cases story) (auto simp: item_raises_def item_story_def)

lemma mock_top_stories_5:
  "get_top_stories mock_upstream 5 =
     (JArr
       [JObj [(''id'', JInt 1), (''title'', JStr ''Y Combinator''),
              (''url'', JStr ''http://ycombinator.com''), (''score'', JInt 57),
              (''author'', JStr ''pg''), (''comments'', JInt 15), (''time'', JInt 1160418111),
              (''time_iso'', JStr ''1160418111'')],
        JObj [(''id'', JInt 2), (''title'', JStr ''''),
              (''url'', JStr ''https://news.ycombinator.com/item?id=2''), (''score'', JInt 0),
              (''author'', JStr ''''), (''comments'', JInt 0), (''time'', JInt 0),
              (''time_iso'', JNull)],
        JObj [(''id'', JInt 4), (''title'', JStr ''''),
              (''url'', JStr ''https://news.ycombinator.com/item?id=4''), (''score'', JInt 0),
              (''author'', JStr ''''), (''comments'', JInt 0), (''time'', JInt 0),
              (''time_iso'', JNull)],
        JObj [(''id'', JInt 5), (''title'', JStr ''''),
              (''url'', JStr ''https://news.ycombinator.com/item?id=5''), (''score'', JInt 0),
              (''author'', JStr ''''), (''comments'', JInt 0), (''time'', JInt 0),
              (''time_iso'', JNull)]],
      [top_stories_request, item_request (JInt 1), item_request (JInt 2), item_request (JInt 3),
       item_request (JInt 4), item_request (JInt 5)])"
proof -
  have "\<forall>story_id \<in> set (take (nat (min (max 5 1) 30)) [JInt 1, JInt 2, JInt 3, JInt 4, JInt 5, JInt 6]).
      item_raises mock_upstream story_id = None"
    by (simp add: mock_item_raises)
  from listing_op_ok [OF mock_top this, of get_top_stories_entry] show ?thesis
    by (simp add: top_listing_op listed_stories_def mock_item_story get_top_stories_entry_def
        dict_get_def py_and_def py_or_def str_int_def digits.simps)
qed

lemma mock_new_stories_3:
  "get_new_stories mock_upstream 3 =
     (JArr
       [JObj [(''id'', JInt 6), (''title'', JStr ''''),
              (''url'', JStr ''https://news.ycombinator.com/item?id=6''), (''score'', JInt 0),
              (''author'', JStr ''''), (''time'', JInt 0), (''time_iso'', JNull)],
        JObj [(''id'', JInt 2), (''title'', JStr ''''),
              (''url'', JStr ''https://news.ycombinator.com/item?id=2''), (''score'', JInt 0),
              (''author'', JStr ''''), (''time'', JInt 0), (''time_iso'', JNull)]],
      [new_stories_request, item_request (JInt 6), item_request (JInt 3), item_request (JInt 2)])"
proof -
  have "\<forall>story_id \<in> set (take (nat (min (max 3 1) 30)) [JInt 6, JInt 3, JInt 2, JInt 4]).
      item_raises mock_upstream story_id = None"
    by (simp add: mock_item_raises)
  from listing_op_ok [OF mock_new this, of get_new_stories_entry] show ?thesis
    by (simp add: new_listing_op listed_stories_def mock_item_story get_new_stories_entry_def
        dict_get_def py_and_def py_or_def str_int_def digits.simps)
qed

lemma top_loop_skip:
  assumes "fetch up (item_request story_id) = Inr story"
    and "\<not> py_truthy story \<or> (\<exists>d. story = JObj d \<and> dict_get d ''type'' JNull \<noteq> JStr ''story'')"
  shows "get_top_stories_loop up (story_id # story_ids) stories log =
     get_top_stories_loop up story_ids stories (log @ [item_request story_id])"
  using not_story_skipped [OF assms] by (simp add: get_top_stories_loop_fan_out)

lemma new_loop_skip:
  assumes "fetch up (item_request story_id) = Inr story"
    and "\<not> py_truthy story \<or> (\<exists>d. story = JObj d \<and> dict_get d ''type'' JNull \<noteq> JStr ''story'')"
  shows "get_new_stories_loop up (story_id # story_ids) stories log =
     get_new_stories_loop up story_ids stories (log @ [item_request story_id])"
  using not_story_skipped [OF assms] by (simp add: get_new_stories_loop_fan_out)

lemma listed_stories_length:
  "length (listed_stories entry up ids) = length (filter (\<lambda>story_id. item_story up story_id \<noteq> None) ids)"
  by (simp add: listed_stories_def)

lemma listed_stories_fewer:
  "story_id \<in> set ids \<Longrightarrow> item_story up story_id = None \<Longrightarrow>
   length (listed_stories entry up ids) < length ids"
  by (simp add: listed_stories_def length_filter_less)

lemma listing_op_truncates:
  assumes "fetch up rq = Inr (JArr ids)"
  shows "(\<exists>k \<le> length (take (nat (min (max limit 1) 30)) ids).
        snd (listing_op entry rq up limit) =
          rq # map item_request (take k (take (nat (min (max limit 1) 30)) ids)))
   \<and> ((\<forall>story_id \<in> set (take (nat (min (max limit 1) 30)) ids). item_raises up story_id = None) \<longrightarrow>
        fst (listing_op entry rq up limit) =
          JArr (listed_stories entry up (take (nat (min (max limit 1) 30)) ids))
        \<and> length (listed_stories entry up (take (nat (min (max limit 1) 30)) ids))
            \<le> nat (min (max limit 1) 30)
        \<and> ((\<exists>story_id \<in> set (take (nat (min (max limit 1) 30)) ids). item_story up story_id = None) \<longrightarrow>
            length (listed_stories entry up (take (nat (min (max limit 1) 30)) ids))
              < length (take (nat (min (max limit 1) 30)) ids)))"
proof (intro conjI impI)
  show "\<exists>k \<le> length (take (nat (min (max limit 1) 30)) ids).
        snd (listing_op entry rq up limit) =
          rq # map item_request (take k (take (nat (min (max limit 1) 30)) ids))"
    using assms by (rule listing_op_prefix)
next
  assume "\<forall>story_id \<in> set (take (nat (min (max limit 1) 30)) ids). item_raises up story_id = None"
  from listing_op_ok [OF assms this]
  show "fst (listing_op entry rq up limit) =
      JArr (listed_stories entry up (take (nat (min (max limit 1) 30)) ids))"
    by simp
next
  have "length (listed_stories entry up (take (nat (min (max limit 1) 30)) ids))
      \<le> length (take (nat (min (max limit 1) 30)) ids)"
    unfolding listed_stories_length by (rule length_filter_le)
  also have "\<dots> \<le> nat (min (max limit 1) 30)" by simp
  finally show "length (listed_stories entry up (take (nat (min (max limit 1) 30)) ids))
      \<le> nat (min (max limit 1) 30)" .
next
  assume "\<exists>story_id \<in> set (take (nat (min (max limit 1) 30)) ids). item_story up story_id = None"
  then show "length (listed_stories entry up (take (nat (min (max limit 1) 30)) ids))
      < length (take (nat (min (max limit 1) 30)) ids)"
    using listed_stories_fewer by blast
qed

lemma mock_search:
  "fetch mock_upstream (search_request ''rust'' 2) =
     Inr (JObj [(''hits'',
       JArr [JObj [(''objectID'', JStr ''101''), (''title'', JStr ''Rust''),
                   (''url'', JStr ''https://www.rust-lang.org''), (''points'', JInt 10),
                   (''author'', JStr ''alice''), (''num_comments'', JInt 3),
                   (''created_at_i'', JInt 1700000000),
                   (''created_at'', JStr ''2023-11-14T22:13:20Z'')],
             JObj [(''objectID'', JStr ''102''), (''title'', JStr ''Rust in production'')]])])"
  by (simp add: eval_defs)

lemma search_stories_hits:
  assumes "fetch up (search_request query (min (max limit 1) 20)) = Inr (JObj data)"
    and "dict_get data ''hits'' (JArr []) = JArr (map JObj hits)"
  shows "fst (search_stories up query limit) = JArr (map search_stories_entry hits)"
  using assms by (simp add: search_stories_unfold search_stories_loop_dicts)

lemma not_truthy_iff:
  "\<not> py_truthy v \<longleftrightarrow>
     v = JNull \<or> v = JBool False \<or> v = JInt 0 \<or> v = JStr '''' \<or> v = JArr [] \<or> v = JObj []"
  by (cases v) auto

lemma mock_null_time_top_stories:
  "get_top_stories mock_null_time 10 =
     (JArr [JObj [(''id'', JInt 7), (''title'', JStr ''''),
                  (''url'', JStr ''https://news.ycombinator.com/item?id=7''), (''score'', JInt 0),
                  (''author'', JStr ''''), (''comments'', JInt 0), (''time'', JNull),
                  (''time_iso'', JNull)]],
      [top_stories_request, item_request (JInt 7)])"
proof -
  have top: "fetch mock_null_time top_stories_request = Inr (JArr [JInt 7])"
    by (simp add: eval_defs mock_null_time_def)
  have item: "fetch mock_null_time (item_request (JInt 7)) =
      Inr (JObj [(''id'', JInt 7), (''time'', JNull), (''type'', JStr ''story'')])"
    by (simp add: eval_defs mock_null_time_def)
  have ok: "\<forall>story_id \<in> set (take (nat (min (max 10 1) 30)) [JInt 7]).
      item_raises mock_null_time story_id = None"
    by (simp add: item_raises_def item)
  have story: "item_story mock_null_time (JInt 7) =
      Some [(''id'', JInt 7), (''time'', JNull), (''type'', JStr ''story'')]"
    by (simp add: item_story_def item dict_get_def)
  from listing_op_ok [OF top ok, of get_top_stories_entry] show ?thesis
    by (simp add: top_listing_op listed_stories_def story get_top_stories_entry_def
        dict_get_def py_and_def py_or_def str_int_def digits.simps)
qed

section \<open>The claims\<close>

text \<open>
  C1. Whatever integer \<open>limit\<close> is, \<^verbatim>\<open>get_top_stories\<close> and \<^verbatim>\<open>get_new_stories\<close> work with
  \<open>min (max limit 1) 30\<close>, which lies between 1 and 30: they behave as on that value,
  they fetch at most 30 items, and when the listing is a list and no fetched item raises,
  the items fetched are exactly the first \<open>min (max limit 1) 30\<close> ids of the listing.
  \<^verbatim>\<open>search_stories\<close> sends \<open>min (max limit 1) 20\<close>, between 1 and 20, as
  \<^verbatim>\<open>hitsPerPage\<close>. A limit out of range is clamped, not refused: 0 and -5 act as 1, and
  100 acts as 30.
\<close>

theorem limit_clamped:
  "1 \<le> min (max limit 1) (30::int) \<and> min (max limit 1) (30::int) \<le> 30
   \<and> get_top_stories up limit = get_top_stories up (min (max limit 1) 30)
   \<and> get_new_stories up limit = get_new_stories up (min (max limit 1) 30)
   \<and> (\<exists>story_ids. length story_ids \<le> 30
         \<and> snd (get_top_stories up limit) = top_stories_request # map item_request story_ids)
   \<and> (\<exists>story_ids. length story_ids \<le> 30
         \<and> snd (get_new_stories up limit) = new_stories_request # map item_request story_ids)
   \<and> (fetch up top_stories_request = Inr (JArr ids) \<longrightarrow>
        (\<forall>story_id \<in> set (take (nat (min (max limit 1) 30)) ids). item_raises up story_id = None) \<longrightarrow>
        snd (get_top_stories up limit) =
          top_stories_request # map item_request (take (nat (min (max limit 1) 30)) ids))
   \<and> (fetch up new_stories_request = Inr (JArr ids) \<longrightarrow>
        (\<forall>story_id \<in> set (take (nat (min (max limit 1) 30)) ids). item_raises up story_id = None) \<longrightarrow>
        snd (get_new_stories up limit) =
          new_stories_request # map item_request (take (nat (min (max limit 1) 30)) ids))
   \<and> 1 \<le> min (max limit 1) (20::int) \<and> min (max limit 1) (20::int) \<le> 20
   \<and> search_stories up query limit = search_stories up query (min (max limit 1) 20)
   \<and> snd (search_stories up query limit) = [search_request query (min (max limit 1) 20)]
   \<and> get_top_stories up 0 = get_top_stories up 1
   \<and> get_top_stories up 100 = get_top_stories up 30
   \<and> get_top_stories up (- 5) = get_top_stories up 1
   \<and> get_new_stories up 0 = get_new_stories up 1
   \<and> get_new_stories up 100 = get_new_stories up 30
   \<and> get_new_stories up (- 5) = get_new_stories up 1
   \<and> search_stories up query 0 = search_stories up query 1
   \<and> search_stories up query 100 = search_stories up query 20
   \<and> search_stories up query (- 5) = search_stories up query 1"
proof -
  have top: "get_top_stories up l = get_top_stories up (min (max l 1) 30)" for l
    unfolding top_listing_op by (rule listing_op_clamp)
  have new: "get_new_stories up l = get_new_stories up (min (max l 1) 30)" for l
    unfolding new_listing_op by (rule listing_op_clamp)
  have top_ok: "snd (get_top_stories up limit) =
      top_stories_request # map item_request (take (nat (min (max limit 1) 30)) ids)"
    if "fetch up top_stories_request = Inr (JArr ids)"
      "\<forall>story_id \<in> set (take (nat (min (max limit 1) 30)) ids). item_raises up story_id = None"
    using listing_op_ok [OF that, of get_top_stories_entry] by (simp add: top_listing_op)
  have new_ok: "snd (get_new_stories up limit) =
      new_stories_request # map item_request (take (nat (min (max limit 1) 30)) ids)"
    if "fetch up new_stories_request = Inr (JArr ids)"
      "\<forall>story_id \<in> set (take (nat (min (max limit 1) 30)) ids). item_raises up story_id = None"
    using listing_op_ok [OF that, of get_new_stories_entry] by (simp add: new_listing_op)
  have search: "search_stories up query l = search_stories up query (min (max l 1) 20)" for l
    by (rule search_stories_clamp)
  show ?thesis
  proof (intro conjI impI)
    show "get_top_stories up limit = get_top_stories up (min (max limit 1) 30)" by (rule top)
    show "get_new_stories up limit = get_new_stories up (min (max limit 1) 30)" by (rule new)
    show "\<exists>story_ids. length story_ids \<le> 30
         \<and> snd (get_top_stories up limit) = top_stories_request # map item_request story_ids"
      unfolding top_listing_op by (rule listing_op_requests)
    show "\<exists>story_ids. length story_ids \<le> 30
         \<and> snd (get_new_stories up limit) = new_stories_request # map item_request story_ids"
      unfolding new_listing_op by (rule listing_op_requests)
    show "search_stories up query limit = search_stories up query (min (max limit 1) 20)"
      by (rule search)
    show "snd (search_stories up query limit) = [search_request query (min (max limit 1) 20)]"
      by (simp add: search_stories_unfold)
    show "get_top_stories up 0 = get_top_stories up 1" using top [of 0] by simp
    show "get_top_stories up 100 = get_top_stories up 30" using top [of 100] by simp
    show "get_top_stories up (- 5) = get_top_stories up 1" using top [of "- 5"] by simp
    show "get_new_stories up 0 = get_new_stories up 1" using new [of 0] by simp
    show "get_new_stories up 100 = get_new_stories up 30" using new [of 100] by simp
    show "get_new_stories up (- 5) = get_new_stories up 1" using new [of "- 5"] by simp
    show "search_stories up query 0 = search_stories up query 1" using search [of 0] by simp
    show "search_stories up query 100 = search_stories up query 20" using search [of 100] by simp
    show "search_stories up query (- 5) = search_stories up query 1" using search [of "- 5"] by simp
  qed (use top_ok new_ok in simp_all)
qed

theorem limit_clamped_witness:
  "fetch mock_upstream top_stories_request = Inr (JArr [JInt 1, JInt 2, JInt 3, JInt 4, JInt 5, JInt 6])
   \<and> list_all (\<lambda>story_id. item_raises mock_upstream story_id = None)
         (take (nat (min (max 100 1) 30)) [JInt 1, JInt 2, JInt 3, JInt 4, JInt 5, JInt 6])
   \<and> snd (get_top_stories mock_upstream 100) =
        [top_stories_request, item_request (JInt 1), item_request (JInt 2), item_request (JInt 3),
         item_request (JInt 4), item_request (JInt 5), item_request (JInt 6)]
   \<and> snd (get_top_stories mock_upstream 0) = [top_stories_request, item_request (JInt 1)]
   \<and> snd (get_top_stories mock_upstream (- 5)) = [top_stories_request, item_request (JInt 1)]
   \<and> snd (get_new_stories mock_upstream 2) =
        [new_stories_request, item_request (JInt 6), item_request (JInt 3)]"
  using limit_clamped [of 100 mock_upstream "[JInt 1, JInt 2, JInt 3, JInt 4, JInt 5, JInt 6]"]
    limit_clamped [of 0 mock_upstream "[JInt 1, JInt 2, JInt 3, JInt 4, JInt 5, JInt 6]"]
    limit_clamped [of "- 5" mock_upstream "[JInt 1, JInt 2, JInt 3, JInt 4, JInt 5, JInt 6]"]
    limit_clamped [of 2 mock_upstream "[JInt 6, JInt 3, JInt 2, JInt 4]"]
  by (simp add: mock_top mock_new mock_item_raises)

text \<open>
  C2. In each of the four operations, when any request the operation issued met a
  failing upstream call (a transport failure or a status that is not a success), be it the
  listing fetch or one item fetch in the middle of the loop, the result is one error
  document \<^verbatim>\<open>{"error": message}\<close> and not an array. Whatever the upstream does, the
  operation returns a document: an error document, or the array of stories (the story
  record, for \<^verbatim>\<open>get_story\<close>); no exception leaves it.
\<close>

theorem upstream_failure_gives_error:
  "(rq \<in> set (snd (get_top_stories up limit)) \<longrightarrow> call_failed up rq \<longrightarrow>
      (\<exists>m. fst (get_top_stories up limit) = JObj [(''error'', JStr m)]))
   \<and> (rq \<in> set (snd (get_new_stories up limit)) \<longrightarrow> call_failed up rq \<longrightarrow>
      (\<exists>m. fst (get_new_stories up limit) = JObj [(''error'', JStr m)]))
   \<and> (rq \<in> set (snd (get_story up story_id)) \<longrightarrow> call_failed up rq \<longrightarrow>
      (\<exists>m. fst (get_story up story_id) = JObj [(''error'', JStr m)]))
   \<and> (rq \<in> set (snd (search_stories up query limit)) \<longrightarrow> call_failed up rq \<longrightarrow>
      (\<exists>m. fst (search_stories up query limit) = JObj [(''error'', JStr m)]))
   \<and> ((\<exists>m. fst (get_top_stories up limit) = JObj [(''error'', JStr m)])
        \<or> (\<exists>stories. fst (get_top_stories up limit) = JArr stories))
   \<and> ((\<exists>m. fst (get_new_stories up limit) = JObj [(''error'', JStr m)])
        \<or> (\<exists>stories. fst (get_new_stories up limit) = JArr stories))
   \<and> ((\<exists>m. fst (get_story up story_id) = JObj [(''error'', JStr m)])
        \<or> (\<exists>d. fst (get_story up story_id) = get_story_formatted story_id d))
   \<and> ((\<exists>m. fst (search_stories up query limit) = JObj [(''error'', JStr m)])
        \<or> (\<exists>stories. fst (search_stories up query limit) = JArr stories))"
proof (intro conjI impI)
  assume "rq \<in> set (snd (get_top_stories up limit))" "call_failed up rq"
  then show "\<exists>m. fst (get_top_stories up limit) = JObj [(''error'', JStr m)]"
    unfolding top_listing_op by (rule listing_op_failure)
next
  assume "rq \<in> set (snd (get_new_stories up limit))" "call_failed up rq"
  then show "\<exists>m. fst (get_new_stories up limit) = JObj [(''error'', JStr m)]"
    unfolding new_listing_op by (rule listing_op_failure)
next
  assume "rq \<in> set (snd (get_story up story_id))" "call_failed up rq"
  then show "\<exists>m. fst (get_story up story_id) = JObj [(''error'', JStr m)]"
    by (rule get_story_failure)
next
  assume "rq \<in> set (snd (search_stories up query limit))" "call_failed up rq"
  then show "\<exists>m. fst (search_stories up query limit) = JObj [(''error'', JStr m)]"
    by (rule search_stories_failure)
next
  show "(\<exists>m. fst (get_top_stories up limit) = JObj [(''error'', JStr m)])
        \<or> (\<exists>stories. fst (get_top_stories up limit) = JArr stories)"
    unfolding top_listing_op by (rule listing_op_shape)
next
  show "(\<exists>m. fst (get_new_stories up limit) = JObj [(''error'', JStr m)])
        \<or> (\<exists>stories. fst (get_new_stories up limit) = JArr stories)"
    unfolding new_listing_op by (rule listing_op_shape)
next
  show "(\<exists>m. fst (get_story up story_id) = JObj [(''error'', JStr m)])
        \<or> (\<exists>d. fst (get_story up story_id) = get_story_formatted story_id d)"
    by (rule get_story_shape)
next
  show "(\<exists>m. fst (search_stories up query limit) = JObj [(''error'', JStr m)])
        \<or> (\<exists>stories. fst (search_stories up query limit) = JArr stories)"
    by (rule search_stories_shape)
qed

theorem upstream_failure_gives_error_witness:
  "item_request (JInt 2) \<in> set (snd (get_top_stories mock_flaky 5))
   \<and> call_failed mock_flaky (item_request (JInt 2))
   \<and> (\<exists>m. fst (get_top_stories mock_flaky 5) = JObj [(''error'', JStr m)])
   \<and> fst (get_top_stories mock_flaky 5) = JObj [(''error'', JStr ''Request failed: timed out'')]
   \<and> item_request (JInt 2) \<in> set (snd (get_new_stories mock_flaky 10))
   \<and> (\<exists>m. fst (get_new_stories mock_flaky 10) = JObj [(''error'', JStr m)])
   \<and> story_request 2 \<in> set (snd (get_story mock_flaky 2))
   \<and> call_failed mock_flaky (story_request 2)
   \<and> (\<exists>m. fst (get_story mock_flaky 2) = JObj [(''error'', JStr m)])
   \<and> search_request ''rust'' 2 \<in> set (snd (search_stories mock_flaky ''rust'' 2))
   \<and> call_failed mock_flaky (search_request ''rust'' 2)
   \<and> (\<exists>m. fst (search_stories mock_flaky ''rust'' 2) = JObj [(''error'', JStr m)])"
proof -
  have top: "item_request (JInt 2) \<in> set (snd (get_top_stories mock_flaky 5))"
    by (simp add: mock_flaky_top_stories)
  have new: "item_request (JInt 2) \<in> set (snd (get_new_stories mock_flaky 10))"
    by (simp add: mock_flaky_new_stories)
  have story: "story_request 2 \<in> set (snd (get_story mock_flaky 2))"
    by (simp add: mock_flaky_story)
  have search: "search_request ''rust'' 2 \<in> set (snd (search_stories mock_flaky ''rust'' 2))"
    by (simp add: mock_flaky_search)
  note failed = mock_flaky_calls(3-5)
  from upstream_failure_gives_error [of "item_request (JInt 2)" mock_flaky 5] top failed(1)
  have 1: "\<exists>m. fst (get_top_stories mock_flaky 5) = JObj [(''error'', JStr m)]" by blast
  from upstream_failure_gives_error [of "item_request (JInt 2)" mock_flaky 10] new failed(1)
  have 2: "\<exists>m. fst (get_new_stories mock_flaky 10) = JObj [(''error'', JStr m)]" by blast
  from upstream_failure_gives_error [of "story_request 2" mock_flaky _ 2] story failed(2)
  have 3: "\<exists>m. fst (get_story mock_flaky 2) = JObj [(''error'', JStr m)]" by blast
  from upstream_failure_gives_error [of "search_request ''rust'' 2" mock_flaky 2 _ "''rust''"]
    search failed(3)
  have 4: "\<exists>m. fst (search_stories mock_flaky ''rust'' 2) = JObj [(''error'', JStr m)]" by blast
  have 5: "fst (get_top_stories mock_flaky 5) = JObj [(''error'', JStr ''Request failed: timed out'')]"
    by (simp add: mock_flaky_top_stories)
  from top new story search failed 1 2 3 4 5 show ?thesis by blast
qed

text \<open>
  C3. Every entry of the array that \<^verbatim>\<open>get_top_stories\<close> or \<^verbatim>\<open>get_new_stories\<close> returns
  is the dict built from an item that was fetched as a dict whose type is \<^verbatim>\<open>"story"\<close>.
  An item that is \<^verbatim>\<open>null\<close> (or otherwise empty), or a dict of another type, is passed
  over by the loop: nothing is appended, nothing is raised, and the loop goes on with the
  next id. \<^verbatim>\<open>get_story\<close> on an item that exists and is not a story answers with the
  error \<^verbatim>\<open>"Item {id} is not a story"\<close> instead.
\<close>

theorem listings_hold_stories_only:
  "(fst (get_top_stories up limit) = JArr out \<longrightarrow> e \<in> set out \<longrightarrow>
      (\<exists>story_id d. fetch up (item_request story_id) = Inr (JObj d)
         \<and> dict_get d ''type'' JNull = JStr ''story'' \<and> e = get_top_stories_entry story_id d))
   \<and> (fst (get_new_stories up limit) = JArr out \<longrightarrow> e \<in> set out \<longrightarrow>
      (\<exists>story_id d. fetch up (item_request story_id) = Inr (JObj d)
         \<and> dict_get d ''type'' JNull = JStr ''story'' \<and> e = get_new_stories_entry story_id d))
   \<and> (fetch up (item_request story_id) = Inr story \<longrightarrow>
        (\<not> py_truthy story \<or> (\<exists>d. story = JObj d \<and> dict_get d ''type'' JNull \<noteq> JStr ''story'')) \<longrightarrow>
        get_top_stories_loop up (story_id # story_ids) stories log =
          get_top_stories_loop up story_ids stories (log @ [item_request story_id])
        \<and> get_new_stories_loop up (story_id # story_ids) stories log =
          get_new_stories_loop up story_ids stories (log @ [item_request story_id]))
   \<and> (fetch up (story_request n) = Inr (JObj item) \<longrightarrow> item \<noteq> [] \<longrightarrow>
        dict_get item ''type'' JNull \<noteq> JStr ''story'' \<longrightarrow>
        fst (get_story up n) = JObj [(''error'', JStr (''Item '' @ str_int n @ '' is not a story''))])"
proof (intro conjI impI)
  assume "fst (get_top_stories up limit) = JArr out" "e \<in> set out"
  then obtain story_id d where "item_story up story_id = Some d" "e = get_top_stories_entry story_id d"
    unfolding top_listing_op using listing_op_provenance by blast
  with item_story_SomeD [of up story_id d]
  show "\<exists>story_id d. fetch up (item_request story_id) = Inr (JObj d)
         \<and> dict_get d ''type'' JNull = JStr ''story'' \<and> e = get_top_stories_entry story_id d"
    by blast
next
  assume "fst (get_new_stories up limit) = JArr out" "e \<in> set out"
  then obtain story_id d where "item_story up story_id = Some d" "e = get_new_stories_entry story_id d"
    unfolding new_listing_op using listing_op_provenance by blast
  with item_story_SomeD [of up story_id d]
  show "\<exists>story_id d. fetch up (item_request story_id) = Inr (JObj d)
         \<and> dict_get d ''type'' JNull = JStr ''story'' \<and> e = get_new_stories_entry story_id d"
    by blast
next
  assume a: "fetch up (item_request story_id) = Inr story"
    "\<not> py_truthy story \<or> (\<exists>d. story = JObj d \<and> dict_get d ''type'' JNull \<noteq> JStr ''story'')"
  show "get_top_stories_loop up (story_id # story_ids) stories log =
          get_top_stories_loop up story_ids stories (log @ [item_request story_id])"
    using a by (rule top_loop_skip)
  show "get_new_stories_loop up (story_id # story_ids) stories log =
          get_new_stories_loop up story_ids stories (log @ [item_request story_id])"
    using a by (rule new_loop_skip)
next
  assume "fetch up (story_request n) = Inr (JObj item)" "item \<noteq> []"
    "dict_get item ''type'' JNull \<noteq> JStr ''story''"
  then show "fst (get_story up n) =
      JObj [(''error'', JStr (''Item '' @ str_int n @ '' is not a story''))]"
    by (simp add: get_story_unfold)
qed

theorem listings_hold_stories_only_witness:
  "fst (get_top_stories mock_upstream 5) =
     JArr
       [JObj [(''id'', JInt 1), (''title'', JStr ''Y Combinator''),
              (''url'', JStr ''http://ycombinator.com''), (''score'', JInt 57),
              (''author'', JStr ''pg''), (''comments'', JInt 15), (''time'', JInt 1160418111),
              (''time_iso'', JStr ''1160418111'')],
        JObj [(''id'', JInt 2), (''title'', JStr ''''),
              (''url'', JStr ''https://news.ycombinator.com/item?id=2''), (''score'', JInt 0),
              (''author'', JStr ''''), (''comments'', JInt 0), (''time'', JInt 0),
              (''time_iso'', JNull)],
        JObj [(''id'', JInt 4), (''title'', JStr ''''),
              (''url'', JStr ''https://news.ycombinator.com/item?id=4''), (''score'', JInt 0),
              (''author'', JStr ''''), (''comments'', JInt 0), (''time'', JInt 0),
              (''time_iso'', JNull)],
        JObj [(''id'', JInt 5), (''title'', JStr ''''),
              (''url'', JStr ''https://news.ycombinator.com/item?id=5''), (''score'', JInt 0),
              (''author'', JStr ''''), (''comments'', JInt 0), (''time'', JInt 0),
              (''time_iso'', JNull)]]
   \<and> (\<exists>story_id d. fetch mock_upstream (item_request story_id) = Inr (JObj d)
         \<and> dict_get d ''type'' JNull = JStr ''story''
         \<and> JObj [(''id'', JInt 2), (''title'', JStr ''''),
              (''url'', JStr ''https://news.ycombinator.com/item?id=2''), (''score'', JInt 0),
              (''author'', JStr ''''), (''comments'', JInt 0), (''time'', JInt 0),
              (''time_iso'', JNull)] = get_top_stories_entry story_id d)
   \<and> fetch mock_upstream (item_request (JInt 3)) =
        Inr (JObj [(''id'', JInt 3), (''title'', JStr ''Hiring''), (''type'', JStr ''job'')])
   \<and> dict_get [(''id'', JInt 3), (''title'', JStr ''Hiring''), (''type'', JStr ''job'')] ''type'' JNull
        \<noteq> JStr ''story''
   \<and> get_top_stories_loop mock_upstream [JInt 3, JInt 4] [] [] =
        get_top_stories_loop mock_upstream [JInt 4] [] [item_request (JInt 3)]
   \<and> get_new_stories_loop mock_upstream [JInt 3, JInt 4] [] [] =
        get_new_stories_loop mock_upstream [JInt 4] [] [item_request (JInt 3)]
   \<and> fetch mock_upstream (item_request (JInt 999999)) = Inr JNull
   \<and> get_top_stories_loop mock_upstream [JInt 999999] [] [] =
        (Inr [], [item_request (JInt 999999)])
   \<and> fst (get_story mock_upstream 3) = JObj [(''error'', JStr ''Item 3 is not a story'')]"
proof -
  let ?job = "[(''id'', JInt 3), (''title'', JStr ''Hiring''), (''type'', JStr ''job'')]"
  let ?e2 = "JObj [(''id'', JInt 2), (''title'', JStr ''''),
              (''url'', JStr ''https://news.ycombinator.com/item?id=2''), (''score'', JInt 0),
              (''author'', JStr ''''), (''comments'', JInt 0), (''time'', JInt 0),
              (''time_iso'', JNull)]"
  note run = mock_top_stories_5
  have job: "dict_get ?job ''type'' JNull \<noteq> JStr ''story''" by (simp add: dict_get_def)
  have null: "fetch mock_upstream (item_request (JInt 999999)) = Inr JNull"
    by (simp add: eval_defs)
  have 1: "\<exists>story_id d. fetch mock_upstream (item_request story_id) = Inr (JObj d)
         \<and> dict_get d ''type'' JNull = JStr ''story'' \<and> ?e2 = get_top_stories_entry story_id d"
    using listings_hold_stories_only [where up = mock_upstream and limit = 5 and e = ?e2,
        THEN conjunct1, rule_format] run
    by simp
  have 2: "get_top_stories_loop mock_upstream [JInt 3, JInt 4] [] [] =
        get_top_stories_loop mock_upstream [JInt 4] [] [item_request (JInt 3)]
      \<and> get_new_stories_loop mock_upstream [JInt 3, JInt 4] [] [] =
        get_new_stories_loop mock_upstream [JInt 4] [] [item_request (JInt 3)]"
    using listings_hold_stories_only [where up = mock_upstream and story_id = "JInt 3"
        and story = "JObj ?job" and story_ids = "[JInt 4]" and stories = "[]" and log = "[]",
        THEN conjunct2, THEN conjunct2, THEN conjunct1, rule_format] mock_items(3) job
    by simp
  have 3: "get_top_stories_loop mock_upstream [JInt 999999] [] [] =
        (Inr [], [item_request (JInt 999999)])"
    using listings_hold_stories_only [where up = mock_upstream and story_id = "JInt 999999"
        and story = JNull and story_ids = "[]" and stories = "[]" and log = "[]",
        THEN conjunct2, THEN conjunct2, THEN conjunct1, rule_format] null
    by simp
  have 4: "fst (get_story mock_upstream 3) = JObj [(''error'', JStr ''Item 3 is not a story'')]"
    using listings_hold_stories_only [where up = mock_upstream and n = 3 and item = ?job,
        THEN conjunct2, THEN conjunct2, THEN conjunct2, rule_format] mock_stories(2) job
    by (simp add: str_int_def digits.simps)
  from run 1 2 3 4 job null mock_items(3) show ?thesis by simp
qed



text \<open>
  C5. \<^verbatim>\<open>get_top_stories\<close> and \<^verbatim>\<open>get_new_stories\<close> cut the listing down to its first
  \<open>min (max limit 1) 30\<close> ids before they fetch anything: only those ids are ever
  requested, and the array returned holds the stories among them, so it is shorter than
  the cut listing as soon as one of these items is not a story; no later id fills the gap.
  With the listing \<^verbatim>\<open>[1,2,3,4,5,6]\<close>, item 3 a job and the others stories,
  \<^verbatim>\<open>get_top_stories(limit=5)\<close> returns the four stories 1, 2, 4, 5, in this order.
\<close>

theorem listing_truncates_before_filtering:
  "(fetch up top_stories_request = Inr (JArr ids) \<longrightarrow>
      (\<exists>k \<le> length (take (nat (min (max limit 1) 30)) ids).
          snd (get_top_stories up limit) =
            top_stories_request # map item_request (take k (take (nat (min (max limit 1) 30)) ids)))
      \<and> ((\<forall>story_id \<in> set (take (nat (min (max limit 1) 30)) ids). item_raises up story_id = None) \<longrightarrow>
          fst (get_top_stories up limit) =
            JArr (listed_stories get_top_stories_entry up (take (nat (min (max limit 1) 30)) ids))
          \<and> length (listed_stories get_top_stories_entry up (take (nat (min (max limit 1) 30)) ids))
              \<le> nat (min (max limit 1) 30)
          \<and> ((\<exists>story_id \<in> set (take (nat (min (max limit 1) 30)) ids). item_story up story_id = None) \<longrightarrow>
              length (listed_stories get_top_stories_entry up (take (nat (min (max limit 1) 30)) ids))
                < length (take (nat (min (max limit 1) 30)) ids))))
   \<and> (fetch up new_stories_request = Inr (JArr ids) \<longrightarrow>
      (\<exists>k \<le> length (take (nat (min (max limit 1) 30)) ids).
          snd (get_new_stories up limit) =
            new_stories_request # map item_request (take k (take (nat (min (max limit 1) 30)) ids)))
      \<and> ((\<forall>story_id \<in> set (take (nat (min (max limit 1) 30)) ids). item_raises up story_id = None) \<longrightarrow>
          fst (get_new_stories up limit) =
            JArr (listed_stories get_new_stories_entry up (take (nat (min (max limit 1) 30)) ids))
          \<and> length (listed_stories get_new_stories_entry up (take (nat (min (max limit 1) 30)) ids))
              \<le> nat (min (max limit 1) 30)
          \<and> ((\<exists>story_id \<in> set (take (nat (min (max limit 1) 30)) ids). item_story up story_id = None) \<longrightarrow>
              length (listed_stories get_new_stories_entry up (take (nat (min (max limit 1) 30)) ids))
                < length (take (nat (min (max limit 1) 30)) ids))))
   \<and> fst (get_top_stories mock_upstream 5) =
       JArr
         [JObj [(''id'', JInt 1), (''title'', JStr ''Y Combinator''),
                (''url'', JStr ''http://ycombinator.com''), (''score'', JInt 57),
                (''author'', JStr ''pg''), (''comments'', JInt 15), (''time'', JInt 1160418111),
                (''time_iso'', JStr ''1160418111'')],
          JObj [(''id'', JInt 2), (''title'', JStr ''''),
                (''url'', JStr ''https://news.ycombinator.com/item?id=2''), (''score'', JInt 0),
                (''author'', JStr ''''), (''comments'', JInt 0), (''time'', JInt 0),
                (''time_iso'', JNull)],
          JObj [(''id'', JInt 4), (''title'', JStr ''''),
                (''url'', JStr ''https://news.ycombinator.com/item?id=4''), (''score'', JInt 0),
                (''author'', JStr ''''), (''comments'', JInt 0), (''time'', JInt 0),
                (''time_iso'', JNull)],
          JObj [(''id'', JInt 5), (''title'', JStr ''''),
                (''url'', JStr ''https://news.ycombinator.com/item?id=5''), (''score'', JInt 0),
                (''author'', JStr ''''), (''comments'', JInt 0), (''time'', JInt 0),
                (''time_iso'', JNull)]]"
proof (intro conjI)
  show "fetch up top_stories_request = Inr (JArr ids) \<longrightarrow>
      (\<exists>k \<le> length (take (nat (min (max limit 1) 30)) ids).
          snd (get_top_stories up limit) =
            top_stories_request # map item_request (take k (take (nat (min (max limit 1) 30)) ids)))
      \<and> ((\<forall>story_id \<in> set (take (nat (min (max limit 1) 30)) ids). item_raises up story_id = None) \<longrightarrow>
          fst (get_top_stories up limit) =
            JArr (listed_stories get_top_stories_entry up (take (nat (min (max limit 1) 30)) ids))
          \<and> length (listed_stories get_top_stories_entry up (take (nat (min (max limit 1) 30)) ids))
              \<le> nat (min (max limit 1) 30)
          \<and> ((\<exists>story_id \<in> set (take (nat (min (max limit 1) 30)) ids). item_story up story_id = None) \<longrightarrow>
              length (listed_stories get_top_stories_entry up (take (nat (min (max limit 1) 30)) ids))
                < length (take (nat (min (max limit 1) 30)) ids)))"
    unfolding top_listing_op using listing_op_truncates by blast
  show "fetch up new_stories_request = Inr (JArr ids) \<longrightarrow>
      (\<exists>k \<le> length (take (nat (min (max limit 1) 30)) ids).
          snd (get_new_stories up limit) =
            new_stories_request # map item_request (take k (take (nat (min (max limit 1) 30)) ids)))
      \<and> ((\<forall>story_id \<in> set (take (nat (min (max limit 1) 30)) ids). item_raises up story_id = None) \<longrightarrow>
          fst (get_new_stories up limit) =
            JArr (listed_stories get_new_stories_entry up (take (nat (min (max limit 1) 30)) ids))
          \<and> length (listed_stories get_new_stories_entry up (take (nat (min (max limit 1) 30)) ids))
              \<le> nat (min (max limit 1) 30)
          \<and> ((\<exists>story_id \<in> set (take (nat (min (max limit 1) 30)) ids). item_story up story_id = None) \<longrightarrow>
              length (listed_stories get_new_stories_entry up (take (nat (min (max limit 1) 30)) ids))
                < length (take (nat (min (max limit 1) 30)) ids)))"
    unfolding new_listing_op using listing_op_truncates by blast
qed (simp add: mock_top_stories_5)

theorem listing_truncates_before_filtering_witness:
  "fetch mock_upstream top_stories_request = Inr (JArr [JInt 1, JInt 2, JInt 3, JInt 4, JInt 5, JInt 6])
   \<and> list_all (\<lambda>story_id. item_raises mock_upstream story_id = None)
        (take (nat (min (max 5 1) 30)) [JInt 1, JInt 2, JInt 3, JInt 4, JInt 5, JInt 6])
   \<and> item_story mock_upstream (JInt 3) = None
   \<and> fst (get_top_stories mock_upstream 5) =
        JArr (listed_stories get_top_stories_entry mock_upstream [JInt 1, JInt 2, JInt 3, JInt 4, JInt 5])
   \<and> length (listed_stories get_top_stories_entry mock_upstream [JInt 1, JInt 2, JInt 3, JInt 4, JInt 5]) < 5
   \<and> length (listed_stories get_top_stories_entry mock_upstream [JInt 1, JInt 2, JInt 3, JInt 4, JInt 5]) = 4
   \<and> snd (get_top_stories mock_upstream 5) =
        [top_stories_request, item_request (JInt 1), item_request (JInt 2), item_request (JInt 3),
         item_request (JInt 4), item_request (JInt 5)]
   \<and> fetch mock_upstream new_stories_request = Inr (JArr [JInt 6, JInt 3, JInt 2, JInt 4])
   \<and> fst (get_new_stories mock_upstream 3) =
        JArr (listed_stories get_new_stories_entry mock_upstream [JInt 6, JInt 3, JInt 2])
   \<and> length (listed_stories get_new_stories_entry mock_upstream [JInt 6, JInt 3, JInt 2]) < 3"
proof -
  let ?ids = "[JInt 1, JInt 2, JInt 3, JInt 4, JInt 5, JInt 6]"
  let ?new = "[JInt 6, JInt 3, JInt 2, JInt 4]"
  have ok: "\<forall>story_id \<in> set (take (nat (min (max 5 1) 30)) ?ids). item_raises mock_upstream story_id = None"
    by (simp add: mock_item_raises)
  have gap: "\<exists>story_id \<in> set (take (nat (min (max 5 1) 30)) ?ids). item_story mock_upstream story_id = None"
    by (simp add: mock_item_story)
  have ok': "\<forall>story_id \<in> set (take (nat (min (max 3 1) 30)) ?new). item_raises mock_upstream story_id = None"
    by (simp add: mock_item_raises)
  have gap': "\<exists>story_id \<in> set (take (nat (min (max 3 1) 30)) ?new). item_story mock_upstream story_id = None"
    by (simp add: mock_item_story)
  note top = listing_truncates_before_filtering [where up = mock_upstream and limit = 5 and ids = ?ids,
      THEN conjunct1, THEN mp, OF mock_top]
  note new = listing_truncates_before_filtering [where up = mock_upstream and limit = 3 and ids = ?new,
      THEN conjunct2, THEN conjunct1, THEN mp, OF mock_new]
  from top [THEN conjunct2, THEN mp, OF ok, THEN conjunct1]
  have 1: "fst (get_top_stories mock_upstream 5) =
      JArr (listed_stories get_top_stories_entry mock_upstream [JInt 1, JInt 2, JInt 3, JInt 4, JInt 5])"
    by simp
  from top [THEN conjunct2, THEN mp, OF ok, THEN conjunct2, THEN conjunct2, THEN mp, OF gap]
  have 2: "length (listed_stories get_top_stories_entry mock_upstream [JInt 1, JInt 2, JInt 3, JInt 4, JInt 5]) < 5"
    by simp
  have 3: "length (listed_stories get_top_stories_entry mock_upstream [JInt 1, JInt 2, JInt 3, JInt 4, JInt 5]) = 4"
    by (simp add: listed_stories_def mock_item_story)
  from new [THEN conjunct2, THEN mp, OF ok', THEN conjunct1]
  have 4: "fst (get_new_stories mock_upstream 3) =
      JArr (listed_stories get_new_stories_entry mock_upstream [JInt 6, JInt 3, JInt 2])"
    by simp
  from new [THEN conjunct2, THEN mp, OF ok', THEN conjunct2, THEN conjunct2, THEN mp, OF gap']
  have 5: "length (listed_stories get_new_stories_entry mock_upstream [JInt 6, JInt 3, JInt 2]) < 3"
    by simp
  from 1 2 3 4 5 mock_top mock_new show ?thesis
    by (simp add: mock_item_raises mock_item_story mock_top_stories_5)
qed

text \<open>
  C6. When a listing operation returns an array, the array is the image, in the same
  order, of the ids of the cut listing whose items are stories: the operation maps the
  filtered list and sorts nothing. The array of \<^verbatim>\<open>search_stories\<close> is the image of the
  \<^verbatim>\<open>hits\<close> array of the reply, hit by hit, in the order of the reply.
\<close>

theorem output_order_is_upstream_order:
  "(fetch up top_stories_request = Inr (JArr ids) \<longrightarrow>
      (\<forall>story_id \<in> set (take (nat (min (max limit 1) 30)) ids). item_raises up story_id = None) \<longrightarrow>
      fst (get_top_stories up limit) =
        JArr (map (\<lambda>story_id. get_top_stories_entry story_id (the (item_story up story_id)))
               (filter (\<lambda>story_id. item_story up story_id \<noteq> None)
                 (take (nat (min (max limit 1) 30)) ids))))
   \<and> (fetch up new_stories_request = Inr (JArr ids) \<longrightarrow>
      (\<forall>story_id \<in> set (take (nat (min (max limit 1) 30)) ids). item_raises up story_id = None) \<longrightarrow>
      fst (get_new_stories up limit) =
        JArr (map (\<lambda>story_id. get_new_stories_entry story_id (the (item_story up story_id)))
               (filter (\<lambda>story_id. item_story up story_id \<noteq> None)
                 (take (nat (min (max limit 1) 30)) ids))))
   \<and> (fetch up (search_request query (min (max limit 1) 20)) = Inr (JObj data) \<longrightarrow>
        dict_get data ''hits'' (JArr []) = JArr (map JObj hits) \<longrightarrow>
        fst (search_stories up query limit) = JArr (map search_stories_entry hits))"
proof (intro conjI impI)
  assume "fetch up top_stories_request = Inr (JArr ids)"
    "\<forall>story_id \<in> set (take (nat (min (max limit 1) 30)) ids). item_raises up story_id = None"
  from listing_op_ok [OF this, of get_top_stories_entry]
  show "fst (get_top_stories up limit) =
        JArr (map (\<lambda>story_id. get_top_stories_entry story_id (the (item_story up story_id)))
               (filter (\<lambda>story_id. item_story up story_id \<noteq> None)
                 (take (nat (min (max limit 1) 30)) ids)))"
    by (simp add: top_listing_op listed_stories_def)
next
  assume "fetch up new_stories_request = Inr (JArr ids)"
    "\<forall>story_id \<in> set (take (nat (min (max limit 1) 30)) ids). item_raises up story_id = None"
  from listing_op_ok [OF this, of get_new_stories_entry]
  show "fst (get_new_stories up limit) =
        JArr (map (\<lambda>story_id. get_new_stories_entry story_id (the (item_story up story_id)))
               (filter (\<lambda>story_id. item_story up story_id \<noteq> None)
                 (take (nat (min (max limit 1) 30)) ids)))"
    by (simp add: new_listing_op listed_stories_def)
next
  assume "fetch up (search_request query (min (max limit 1) 20)) = Inr (JObj data)"
    "dict_get data ''hits'' (JArr []) = JArr (map JObj hits)"
  then show "fst (search_stories up query limit) = JArr (map search_stories_entry hits)"
    by (rule search_stories_hits)
qed

theorem output_order_is_upstream_order_witness:
  "fetch mock_upstream new_stories_request = Inr (JArr [JInt 6, JInt 3, JInt 2, JInt 4])
   \<and> list_all (\<lambda>story_id. item_raises mock_upstream story_id = None) [JInt 6, JInt 3, JInt 2, JInt 4]
   \<and> fst (get_new_stories mock_upstream 10) =
       JArr
         [JObj [(''id'', JInt 6), (''title'', JStr ''''),
                (''url'', JStr ''https://news.ycombinator.com/item?id=6''), (''score'', JInt 0),
                (''author'', JStr ''''), (''time'', JInt 0), (''time_iso'', JNull)],
          JObj [(''id'', JInt 2), (''title'', JStr ''''),
                (''url'', JStr ''https://news.ycombinator.com/item?id=2''), (''score'', JInt 0),
                (''author'', JStr ''''), (''time'', JInt 0), (''time_iso'', JNull)],
          JObj [(''id'', JInt 4), (''title'', JStr ''''),
                (''url'', JStr ''https://news.ycombinator.com/item?id=4''), (''score'', JInt 0),
                (''author'', JStr ''''), (''time'', JInt 0), (''time_iso'', JNull)]]
   \<and> map (\<lambda>story. json_field story ''id'')
        (map (\<lambda>story_id. get_top_stories_entry story_id (the (item_story mock_upstream story_id)))
          (filter (\<lambda>story_id. item_story mock_upstream story_id \<noteq> None)
            (take (nat (min (max 5 1) 30)) [JInt 1, JInt 2, JInt 3, JInt 4, JInt 5, JInt 6]))) =
       [Some (JInt 1), Some (JInt 2), Some (JInt 4), Some (JInt 5)]
   \<and> fst (get_top_stories mock_upstream 5) =
       JArr (map (\<lambda>story_id. get_top_stories_entry story_id (the (item_story mock_upstream story_id)))
          (filter (\<lambda>story_id. item_story mock_upstream story_id \<noteq> None)
            (take (nat (min (max 5 1) 30)) [JInt 1, JInt 2, JInt 3, JInt 4, JInt 5, JInt 6])))
   \<and> fst (search_stories mock_upstream ''rust'' 2) =
       JArr
         [JObj [(''id'', JStr ''101''), (''title'', JStr ''Rust''),
                (''url'', JStr ''https://www.rust-lang.org''), (''score'', JInt 10),
                (''author'', JStr ''alice''), (''comments'', JInt 3),
                (''time'', JInt 1700000000), (''time_iso'', JStr ''2023-11-14T22:13:20Z'')],
          JObj [(''id'', JStr ''102''), (''title'', JStr ''Rust in production''),
                (''url'', JStr ''https://news.ycombinator.com/item?id=102''), (''score'', JInt 0),
                (''author'', JStr ''''), (''comments'', JInt 0), (''time'', JInt 0),
                (''time_iso'', JStr '''')]]"
proof -
  let ?ids = "[JInt 1, JInt 2, JInt 3, JInt 4, JInt 5, JInt 6]"
  let ?new = "[JInt 6, JInt 3, JInt 2, JInt 4]"
  let ?h1 = "[(''objectID'', JStr ''101''), (''title'', JStr ''Rust''),
                   (''url'', JStr ''https://www.rust-lang.org''), (''points'', JInt 10),
                   (''author'', JStr ''alice''), (''num_comments'', JInt 3),
                   (''created_at_i'', JInt 1700000000),
                   (''created_at'', JStr ''2023-11-14T22:13:20Z'')]"
  let ?h2 = "[(''objectID'', JStr ''102''), (''title'', JStr ''Rust in production'')]"
  have ok: "\<forall>story_id \<in> set (take (nat (min (max 5 1) 30)) ?ids). item_raises mock_upstream story_id = None"
    by (simp add: mock_item_raises)
  have ok': "\<forall>story_id \<in> set (take (nat (min (max 10 1) 30)) ?new). item_raises mock_upstream story_id = None"
    by (simp add: mock_item_raises)
  have hits: "dict_get [(''hits'', JArr [JObj ?h1, JObj ?h2])] ''hits'' (JArr []) = JArr (map JObj [?h1, ?h2])"
    by (simp add: dict_get_def)
  note order = output_order_is_upstream_order
  from order [where up = mock_upstream and limit = 5 and ids = ?ids, THEN conjunct1, THEN mp, THEN mp,
      OF mock_top ok]
  have 1: "fst (get_top_stories mock_upstream 5) =
       JArr (map (\<lambda>story_id. get_top_stories_entry story_id (the (item_story mock_upstream story_id)))
          (filter (\<lambda>story_id. item_story mock_upstream story_id \<noteq> None)
            (take (nat (min (max 5 1) 30)) ?ids)))" .
  from order [where up = mock_upstream and limit = 10 and ids = ?new, THEN conjunct2, THEN conjunct1,
      THEN mp, THEN mp, OF mock_new ok']
  have 2: "fst (get_new_stories mock_upstream 10) =
       JArr
         [JObj [(''id'', JInt 6), (''title'', JStr ''''),
                (''url'', JStr ''https://news.ycombinator.com/item?id=6''), (''score'', JInt 0),
                (''author'', JStr ''''), (''time'', JInt 0), (''time_iso'', JNull)],
          JObj [(''id'', JInt 2), (''title'', JStr ''''),
                (''url'', JStr ''https://news.ycombinator.com/item?id=2''), (''score'', JInt 0),
                (''author'', JStr ''''), (''time'', JInt 0), (''time_iso'', JNull)],
          JObj [(''id'', JInt 4), (''title'', JStr ''''),
                (''url'', JStr ''https://news.ycombinator.com/item?id=4''), (''score'', JInt 0),
                (''author'', JStr ''''), (''time'', JInt 0), (''time_iso'', JNull)]]"
    by (simp add: mock_item_story get_new_stories_entry_def dict_get_def py_and_def py_or_def
        str_int_def digits.simps)
  from order [where up = mock_upstream and limit = 2 and query = "''rust''" and hits = "[?h1, ?h2]"
      and data = "[(''hits'', JArr [JObj ?h1, JObj ?h2])]",
      THEN conjunct2, THEN conjunct2, THEN mp, THEN mp, OF _ hits] mock_search
  have 3: "fst (search_stories mock_upstream ''rust'' 2) =
       JArr
         [JObj [(''id'', JStr ''101''), (''title'', JStr ''Rust''),
                (''url'', JStr ''https://www.rust-lang.org''), (''score'', JInt 10),
                (''author'', JStr ''alice''), (''comments'', JInt 3),
                (''time'', JInt 1700000000), (''time_iso'', JStr ''2023-11-14T22:13:20Z'')],
          JObj [(''id'', JStr ''102''), (''title'', JStr ''Rust in production''),
                (''url'', JStr ''https://news.ycombinator.com/item?id=102''), (''score'', JInt 0),
                (''author'', JStr ''''), (''comments'', JInt 0), (''time'', JInt 0),
                (''time_iso'', JStr '''')]]"
    by (simp add: search_stories_entry_def dict_get_def)
  have 4: "map (\<lambda>story. json_field story ''id'')
        (map (\<lambda>story_id. get_top_stories_entry story_id (the (item_story mock_upstream story_id)))
          (filter (\<lambda>story_id. item_story mock_upstream story_id \<noteq> None)
            (take (nat (min (max 5 1) 30)) ?ids))) =
       [Some (JInt 1), Some (JInt 2), Some (JInt 4), Some (JInt 5)]"
    by (simp add: mock_item_story get_top_stories_entry_def dict_get_def)
  have 5: "list_all (\<lambda>story_id. item_raises mock_upstream story_id = None) ?new"
    by (simp add: mock_item_raises)
  from 1 2 3 4 5 mock_new show ?thesis by blast
qed

text \<open>
  C7. A key that the raw item or hit does not have gets its default in the dict built
  from it: \<^verbatim>\<open>title\<close> is \<^verbatim>\<open>""\<close>, \<^verbatim>\<open>score\<close> is 0, \<^verbatim>\<open>author\<close> is \<^verbatim>\<open>""\<close>, \<^verbatim>\<open>comments\<close> is 0
  and \<^verbatim>\<open>time\<close> is 0 (the dict of \<^verbatim>\<open>get_new_stories\<close> has no \<^verbatim>\<open>comments\<close> key at all).
  When the raw record has no \<^verbatim>\<open>url\<close>, the \<^verbatim>\<open>url\<close> is the discussion link
  \<^verbatim>\<open>https://news.ycombinator.com/item?id=\<close> followed by the id: the id from the listing
  in the listing operations, \<^verbatim>\<open>story_id\<close> in \<^verbatim>\<open>get_story\<close>, the \<^verbatim>\<open>objectID\<close> of the hit
  in \<^verbatim>\<open>search_stories\<close>.
\<close>

theorem missing_fields_take_defaults:
  "(map_of d ''title'' = None \<longrightarrow>
      json_field (get_top_stories_entry story_id d) ''title'' = Some (JStr '''')
      \<and> json_field (get_new_stories_entry story_id d) ''title'' = Some (JStr '''')
      \<and> json_field (get_story_formatted n d) ''title'' = Some (JStr ''''))
   \<and> (map_of d ''score'' = None \<longrightarrow>
      json_field (get_top_stories_entry story_id d) ''score'' = Some (JInt 0)
      \<and> json_field (get_new_stories_entry story_id d) ''score'' = Some (JInt 0)
      \<and> json_field (get_story_formatted n d) ''score'' = Some (JInt 0))
   \<and> (map_of d ''by'' = None \<longrightarrow>
      json_field (get_top_stories_entry story_id d) ''author'' = Some (JStr '''')
      \<and> json_field (get_new_stories_entry story_id d) ''author'' = Some (JStr '''')
      \<and> json_field (get_story_formatted n d) ''author'' = Some (JStr ''''))
   \<and> (map_of d ''descendants'' = None \<longrightarrow>
      json_field (get_top_stories_entry story_id d) ''comments'' = Some (JInt 0)
      \<and> json_field (get_story_formatted n d) ''comments'' = Some (JInt 0))
   \<and> json_field (get_new_stories_entry story_id d) ''comments'' = None
   \<and> (map_of d ''time'' = None \<longrightarrow>
      json_field (get_top_stories_entry story_id d) ''time'' = Some (JInt 0)
      \<and> json_field (get_new_stories_entry story_id d) ''time'' = Some (JInt 0)
      \<and> json_field (get_story_formatted n d) ''time'' = Some (JInt 0))
   \<and> (map_of d ''url'' = None \<longrightarrow>
      json_field (get_top_stories_entry story_id d) ''url'' =
        Some (JStr (''https://news.ycombinator.com/item?id='' @ py_str story_id))
      \<and> json_field (get_new_stories_entry story_id d) ''url'' =
        Some (JStr (''https://news.ycombinator.com/item?id='' @ py_str story_id))
      \<and> json_field (get_story_formatted n d) ''url'' =
        Some (JStr (''https://news.ycombinator.com/item?id='' @ str_int n)))
   \<and> (map_of hit ''title'' = None \<longrightarrow>
      json_field (search_stories_entry hit) ''title'' = Some (JStr ''''))
   \<and> (map_of hit ''points'' = None \<longrightarrow>
      json_field (search_stories_entry hit) ''score'' = Some (JInt 0))
   \<and> (map_of hit ''author'' = None \<longrightarrow>
      json_field (search_stories_entry hit) ''author'' = Some (JStr ''''))
   \<and> (map_of hit ''num_comments'' = None \<longrightarrow>
      json_field (search_stories_entry hit) ''comments'' = Some (JInt 0))
   \<and> (map_of hit ''created_at_i'' = None \<longrightarrow>
      json_field (search_stories_entry hit) ''time'' = Some (JInt 0))
   \<and> (map_of hit ''url'' = None \<longrightarrow>
      json_field (search_stories_entry hit) ''url'' =
        Some (JStr (''https://news.ycombinator.com/item?id='' @ py_str (dict_get hit ''objectID'' JNull))))
   \<and> (map_of hit ''url'' = None \<longrightarrow> map_of hit ''objectID'' = Some (JStr object_id) \<longrightarrow>
      json_field (search_stories_entry hit) ''url'' =
        Some (JStr (''https://news.ycombinator.com/item?id='' @ object_id)))
   \<and> py_str (JInt i) = str_int i"
  by (simp add: get_top_stories_entry_def get_new_stories_entry_def get_story_formatted_def
      search_stories_entry_def dict_get_def)

theorem missing_fields_take_defaults_witness:
  "map_of [(''id'', JInt 2), (''type'', JStr ''story'')] ''title'' = None
   \<and> map_of [(''id'', JInt 2), (''type'', JStr ''story'')] ''url'' = None
   \<and> json_field (get_top_stories_entry (JInt 2) [(''id'', JInt 2), (''type'', JStr ''story'')]) ''title''
       = Some (JStr '''')
   \<and> json_field (get_top_stories_entry (JInt 2) [(''id'', JInt 2), (''type'', JStr ''story'')]) ''score''
       = Some (JInt 0)
   \<and> json_field (get_top_stories_entry (JInt 2) [(''id'', JInt 2), (''type'', JStr ''story'')]) ''author''
       = Some (JStr '''')
   \<and> json_field (get_top_stories_entry (JInt 2) [(''id'', JInt 2), (''type'', JStr ''story'')]) ''comments''
       = Some (JInt 0)
   \<and> json_field (get_top_stories_entry (JInt 2) [(''id'', JInt 2), (''type'', JStr ''story'')]) ''time''
       = Some (JInt 0)
   \<and> json_field (get_top_stories_entry (JInt 2) [(''id'', JInt 2), (''type'', JStr ''story'')]) ''url''
       = Some (JStr ''https://news.ycombinator.com/item?id=2'')
   \<and> json_field (get_new_stories_entry (JInt 2) [(''id'', JInt 2), (''type'', JStr ''story'')]) ''url''
       = Some (JStr ''https://news.ycombinator.com/item?id=2'')
   \<and> json_field (get_story_formatted 2 [(''id'', JInt 2), (''type'', JStr ''story'')]) ''url''
       = Some (JStr ''https://news.ycombinator.com/item?id=2'')
   \<and> json_field (get_story_formatted 2 [(''id'', JInt 2), (''type'', JStr ''story'')]) ''comments''
       = Some (JInt 0)
   \<and> map_of [(''objectID'', JStr ''102'')] ''url'' = None
   \<and> json_field (search_stories_entry [(''objectID'', JStr ''102'')]) ''title'' = Some (JStr '''')
   \<and> json_field (search_stories_entry [(''objectID'', JStr ''102'')]) ''score'' = Some (JInt 0)
   \<and> json_field (search_stories_entry [(''objectID'', JStr ''102'')]) ''author'' = Some (JStr '''')
   \<and> json_field (search_stories_entry [(''objectID'', JStr ''102'')]) ''comments'' = Some (JInt 0)
   \<and> json_field (search_stories_entry [(''objectID'', JStr ''102'')]) ''time'' = Some (JInt 0)
   \<and> json_field (search_stories_entry [(''objectID'', JStr ''102'')]) ''url''
       = Some (JStr ''https://news.ycombinator.com/item?id=102'')"
  using missing_fields_take_defaults [where d = "[(''id'', JInt 2), (''type'', JStr ''story'')]"
      and story_id = "JInt 2" and n = 2 and hit = "[(''objectID'', JStr ''102'')]"
      and object_id = "''102''" and i = 2]
  by (simp add: str_int_def digits.simps dict_get_def)

text \<open>
  C8, as the code has it. The first request of \<^verbatim>\<open>get_top_stories\<close> and of
  \<^verbatim>\<open>get_new_stories\<close> is the listing fetch, issued with a timeout of 10, and every
  further request is an item fetch of the loop, issued with a timeout of 5. The one item
  fetch of \<^verbatim>\<open>get_story\<close> is issued with a timeout of 10, not 5, and so is the search.
\<close>

theorem fetch_timeouts:
  "(\<exists>story_ids. snd (get_top_stories up limit) =
       \<lparr>url = HN_API_BASE @ ''/topstories.json'', params = [], timeout = 10\<rparr> #
       map (\<lambda>story_id. \<lparr>url = HN_API_BASE @ ''/item/'' @ py_str story_id @ ''.json'', params = [],
                          timeout = 5\<rparr>) story_ids)
   \<and> (\<exists>story_ids. snd (get_new_stories up limit) =
       \<lparr>url = HN_API_BASE @ ''/newstories.json'', params = [], timeout = 10\<rparr> #
       map (\<lambda>story_id. \<lparr>url = HN_API_BASE @ ''/item/'' @ py_str story_id @ ''.json'', params = [],
                          timeout = 5\<rparr>) story_ids)
   \<and> snd (get_story up story_id) =
       [\<lparr>url = HN_API_BASE @ ''/item/'' @ str_int story_id @ ''.json'', params = [], timeout = 10\<rparr>]
   \<and> snd (search_stories up query limit) =
       [\<lparr>url = ''https://hn.algolia.com/api/v1/search'',
         params = [(''query'', JStr query), (''tags'', JStr ''story''),
                   (''hitsPerPage'', JInt (min (max limit 1) 20))],
         timeout = 10\<rparr>]"
proof (intro conjI)
  obtain ids where "snd (listing_op get_top_stories_entry top_stories_request up limit) =
      top_stories_request # map item_request ids"
    using listing_op_requests by blast
  then have "snd (get_top_stories up limit) =
       \<lparr>url = HN_API_BASE @ ''/topstories.json'', params = [], timeout = 10\<rparr> #
       map (\<lambda>story_id. \<lparr>url = HN_API_BASE @ ''/item/'' @ py_str story_id @ ''.json'', params = [],
                          timeout = 5\<rparr>) ids"
    by (simp add: top_listing_op top_stories_request_def item_request_def)
  then show "\<exists>story_ids. snd (get_top_stories up limit) =
       \<lparr>url = HN_API_BASE @ ''/topstories.json'', params = [], timeout = 10\<rparr> #
       map (\<lambda>story_id. \<lparr>url = HN_API_BASE @ ''/item/'' @ py_str story_id @ ''.json'', params = [],
                          timeout = 5\<rparr>) story_ids" ..
next
  obtain ids where "snd (listing_op get_new_stories_entry new_stories_request up limit) =
      new_stories_request # map item_request ids"
    using listing_op_requests by blast
  then have "snd (get_new_stories up limit) =
       \<lparr>url = HN_API_BASE @ ''/newstories.json'', params = [], timeout = 10\<rparr> #
       map (\<lambda>story_id. \<lparr>url = HN_API_BASE @ ''/item/'' @ py_str story_id @ ''.json'', params = [],
                          timeout = 5\<rparr>) ids"
    by (simp add: new_listing_op new_stories_request_def item_request_def)
  then show "\<exists>story_ids. snd (get_new_stories up limit) =
       \<lparr>url = HN_API_BASE @ ''/newstories.json'', params = [], timeout = 10\<rparr> #
       map (\<lambda>story_id. \<lparr>url = HN_API_BASE @ ''/item/'' @ py_str story_id @ ''.json'', params = [],
                          timeout = 5\<rparr>) story_ids" ..
next
  show "snd (get_story up story_id) =
       [\<lparr>url = HN_API_BASE @ ''/item/'' @ str_int story_id @ ''.json'', params = [], timeout = 10\<rparr>]"
    by (simp add: get_story_unfold story_request_def)
next
  show "snd (search_stories up query limit) =
       [\<lparr>url = ''https://hn.algolia.com/api/v1/search'',
         params = [(''query'', JStr query), (''tags'', JStr ''story''),
                   (''hitsPerPage'', JInt (min (max limit 1) 20))],
         timeout = 10\<rparr>]"
    by (simp add: search_stories_unfold search_request_def)
qed

text \<open>
  The item fetch of \<^verbatim>\<open>get_story(1)\<close> goes out with a timeout of 10: the claim that every
  fetch of an item by id has the timeout 5, the one of \<^verbatim>\<open>get_story\<close> included, fails here.
\<close>

theorem get_story_timeout_counterexample:
  "snd (get_story mock_upstream 1) =
     [\<lparr>url = ''https://hacker-news.firebaseio.com/v0/item/1.json'', params = [], timeout = 10\<rparr>]
   \<and> timeout (hd (snd (get_story mock_upstream 1))) \<noteq> 5"
  by (simp add: get_story_unfold story_request_def HN_API_BASE_def str_int_def digits.simps)

text \<open>
  C9. The undecorated function of the HTTP endpoint and the function registered as a
  tool are the same function, for each of the four operations: on every upstream and
  every input they return the same document and issue the same requests.
\<close>

theorem http_functions_equal_tools:
  "get_top_stories_http = get_top_stories
   \<and> get_new_stories_http = get_new_stories
   \<and> get_story_http = get_story
   \<and> search_stories_http = search_stories"
  by (intro conjI ext) (rule top_http_eq new_http_eq story_http_eq search_http_eq)+

text \<open>
  C10, as the code has it. In the dicts of \<^verbatim>\<open>get_top_stories\<close> and \<^verbatim>\<open>get_new_stories\<close>,
  \<^verbatim>\<open>time_iso\<close> is \<^verbatim>\<open>None\<close> exactly when the \<^verbatim>\<open>time\<close> of the item is missing or is false
  in Python's sense, that is \<^verbatim>\<open>null\<close>, \<^verbatim>\<open>false\<close>, 0, \<^verbatim>\<open>""\<close>, \<^verbatim>\<open>[]\<close> or \<^verbatim>\<open>{}\<close>; any other
  \<^verbatim>\<open>time\<close> gives \<^verbatim>\<open>str(time)\<close>. So an item whose \<^verbatim>\<open>time\<close> is missing, and defaults to
  0, has \<^verbatim>\<open>time_iso\<close> \<^verbatim>\<open>None\<close> and not \<^verbatim>\<open>"0"\<close>, and an integer \<^verbatim>\<open>time\<close> gives \<^verbatim>\<open>None\<close>
  exactly when it is 0. In \<^verbatim>\<open>search_stories\<close> a hit without \<^verbatim>\<open>created_at\<close> has
  \<^verbatim>\<open>time_iso\<close> equal to the empty string, which is not \<^verbatim>\<open>None\<close>.
\<close>

theorem time_iso_none_or_string:
  "(json_field (get_top_stories_entry story_id d) ''time_iso'' = Some JNull
      \<longleftrightarrow> map_of d ''time'' = None \<or> (\<exists>v. map_of d ''time'' = Some v \<and> \<not> py_truthy v))
   \<and> (json_field (get_new_stories_entry story_id d) ''time_iso'' = Some JNull
      \<longleftrightarrow> map_of d ''time'' = None \<or> (\<exists>v. map_of d ''time'' = Some v \<and> \<not> py_truthy v))
   \<and> (\<not> py_truthy v \<longleftrightarrow>
        v = JNull \<or> v = JBool False \<or> v = JInt 0 \<or> v = JStr '''' \<or> v = JArr [] \<or> v = JObj [])
   \<and> (map_of d ''time'' = Some v \<longrightarrow> py_truthy v \<longrightarrow>
      json_field (get_top_stories_entry story_id d) ''time_iso'' = Some (JStr (py_str v))
      \<and> json_field (get_new_stories_entry story_id d) ''time_iso'' = Some (JStr (py_str v)))
   \<and> (map_of d ''time'' = None \<longrightarrow>
      json_field (get_top_stories_entry story_id d) ''time'' = Some (JInt 0)
      \<and> json_field (get_top_stories_entry story_id d) ''time_iso'' = Some JNull
      \<and> json_field (get_new_stories_entry story_id d) ''time'' = Some (JInt 0)
      \<and> json_field (get_new_stories_entry story_id d) ''time_iso'' = Some JNull)
   \<and> (map_of d ''time'' = Some (JInt t) \<longrightarrow>
      (json_field (get_top_stories_entry story_id d) ''time_iso'' = Some JNull \<longleftrightarrow> t = 0)
      \<and> (json_field (get_new_stories_entry story_id d) ''time_iso'' = Some JNull \<longleftrightarrow> t = 0))
   \<and> (map_of d ''time'' = Some (JInt t) \<longrightarrow> t \<noteq> 0 \<longrightarrow>
      json_field (get_top_stories_entry story_id d) ''time_iso'' = Some (JStr (str_int t))
      \<and> json_field (get_new_stories_entry story_id d) ''time_iso'' = Some (JStr (str_int t)))
   \<and> (map_of hit ''created_at'' = None \<longrightarrow>
      json_field (search_stories_entry hit) ''time_iso'' = Some (JStr '''')
      \<and> json_field (search_stories_entry hit) ''time_iso'' \<noteq> Some JNull)"
proof (intro conjI impI)
  show "json_field (get_top_stories_entry story_id d) ''time_iso'' = Some JNull
      \<longleftrightarrow> map_of d ''time'' = None \<or> (\<exists>v. map_of d ''time'' = Some v \<and> \<not> py_truthy v)"
    by (cases "map_of d ''time''") (simp_all add: listing_time_iso dict_get_def)
  show "json_field (get_new_stories_entry story_id d) ''time_iso'' = Some JNull
      \<longleftrightarrow> map_of d ''time'' = None \<or> (\<exists>v. map_of d ''time'' = Some v \<and> \<not> py_truthy v)"
    by (cases "map_of d ''time''") (simp_all add: listing_time_iso dict_get_def)
  show "\<not> py_truthy v \<longleftrightarrow>
        v = JNull \<or> v = JBool False \<or> v = JInt 0 \<or> v = JStr '''' \<or> v = JArr [] \<or> v = JObj []"
    by (rule not_truthy_iff)
next
  assume "map_of d ''time'' = Some v" "py_truthy v"
  then show "json_field (get_top_stories_entry story_id d) ''time_iso'' = Some (JStr (py_str v))"
    and "json_field (get_new_stories_entry story_id d) ''time_iso'' = Some (JStr (py_str v))"
    by (simp_all add: listing_time_iso dict_get_def)
next
  assume "map_of d ''time'' = None"
  then show "json_field (get_top_stories_entry story_id d) ''time'' = Some (JInt 0)"
    and "json_field (get_top_stories_entry story_id d) ''time_iso'' = Some JNull"
    and "json_field (get_new_stories_entry story_id d) ''time'' = Some (JInt 0)"
    and "json_field (get_new_stories_entry story_id d) ''time_iso'' = Some JNull"
    by (simp_all add: listing_time_iso dict_get_def)
      (simp_all add: get_top_stories_entry_def get_new_stories_entry_def dict_get_def)
next
  assume "map_of d ''time'' = Some (JInt t)"
  then show "json_field (get_top_stories_entry story_id d) ''time_iso'' = Some JNull \<longleftrightarrow> t = 0"
    and "json_field (get_new_stories_entry story_id d) ''time_iso'' = Some JNull \<longleftrightarrow> t = 0"
    by (simp_all add: listing_time_iso dict_get_def)
next
  assume "map_of d ''time'' = Some (JInt t)" "t \<noteq> 0"
  then show "json_field (get_top_stories_entry story_id d) ''time_iso'' = Some (JStr (str_int t))"
    and "json_field (get_new_stories_entry story_id d) ''time_iso'' = Some (JStr (str_int t))"
    by (simp_all add: listing_time_iso dict_get_def)
next
  assume "map_of hit ''created_at'' = None"
  then show "json_field (search_stories_entry hit) ''time_iso'' = Some (JStr '''')"
    and "json_field (search_stories_entry hit) ''time_iso'' \<noteq> Some JNull"
    by (simp_all add: search_stories_entry_def dict_get_def)
qed

theorem time_iso_none_or_string_witness:
  "map_of [(''id'', JInt 5), (''type'', JStr ''story'')] ''time'' = None
   \<and> json_field (get_top_stories_entry (JInt 5) [(''id'', JInt 5), (''type'', JStr ''story'')]) ''time''
       = Some (JInt 0)
   \<and> json_field (get_top_stories_entry (JInt 5) [(''id'', JInt 5), (''type'', JStr ''story'')]) ''time_iso''
       = Some JNull
   \<and> map_of [(''id'', JInt 4), (''time'', JInt 0), (''type'', JStr ''story'')] ''time'' = Some (JInt 0)
   \<and> json_field (get_new_stories_entry (JInt 4) [(''id'', JInt 4), (''time'', JInt 0), (''type'', JStr ''story'')])
        ''time_iso'' = Some JNull
   \<and> map_of [(''time'', JInt 1160418111), (''type'', JStr ''story'')] ''time'' = Some (JInt 1160418111)
   \<and> json_field (get_top_stories_entry (JInt 1) [(''time'', JInt 1160418111), (''type'', JStr ''story'')])
        ''time_iso'' = Some (JStr ''1160418111'')
   \<and> map_of [(''time'', JStr ''''), (''type'', JStr ''story'')] ''time'' = Some (JStr '''')
   \<and> json_field (get_top_stories_entry (JInt 8) [(''time'', JStr ''''), (''type'', JStr ''story'')])
        ''time_iso'' = Some JNull
   \<and> map_of [(''time'', JStr ''noon''), (''type'', JStr ''story'')] ''time'' = Some (JStr ''noon'')
   \<and> py_truthy (JStr ''noon'')
   \<and> json_field (get_new_stories_entry (JInt 9) [(''time'', JStr ''noon''), (''type'', JStr ''story'')])
        ''time_iso'' = Some (JStr ''noon'')
   \<and> map_of [(''objectID'', JStr ''102'')] ''created_at'' = None
   \<and> json_field (search_stories_entry [(''objectID'', JStr ''102'')]) ''time_iso'' = Some (JStr '''')"
proof -
  note t = time_iso_none_or_string
  have 1: "json_field (get_top_stories_entry (JInt 5) [(''id'', JInt 5), (''type'', JStr ''story'')]) ''time''
       = Some (JInt 0)
     \<and> json_field (get_top_stories_entry (JInt 5) [(''id'', JInt 5), (''type'', JStr ''story'')]) ''time_iso''
       = Some JNull"
    using t [where d = "[(''id'', JInt 5), (''type'', JStr ''story'')]" and story_id = "JInt 5",
        THEN conjunct2, THEN conjunct2, THEN conjunct2, THEN conjunct2, THEN conjunct1]
    by simp
  have 2: "json_field (get_new_stories_entry (JInt 4) [(''id'', JInt 4), (''time'', JInt 0), (''type'', JStr ''story'')])
        ''time_iso'' = Some JNull"
    using t [where d = "[(''id'', JInt 4), (''time'', JInt 0), (''type'', JStr ''story'')]"
        and story_id = "JInt 4" and t = 0,
        THEN conjunct2, THEN conjunct2, THEN conjunct2, THEN conjunct2, THEN conjunct2, THEN conjunct1]
    by simp
  have 3: "json_field (get_top_stories_entry (JInt 1) [(''time'', JInt 1160418111), (''type'', JStr ''story'')])
        ''time_iso'' = Some (JStr ''1160418111'')"
    using t [where d = "[(''time'', JInt 1160418111), (''type'', JStr ''story'')]"
        and story_id = "JInt 1" and t = 1160418111,
        THEN conjunct2, THEN conjunct2, THEN conjunct2, THEN conjunct2, THEN conjunct2, THEN conjunct2,
        THEN conjunct1]
    by (simp add: str_int_def digits.simps)
  have 4: "json_field (get_top_stories_entry (JInt 8) [(''time'', JStr ''''), (''type'', JStr ''story'')])
        ''time_iso'' = Some JNull"
    using t [where d = "[(''time'', JStr ''''), (''type'', JStr ''story'')]" and story_id = "JInt 8",
        THEN conjunct1]
    by simp
  have 5: "json_field (get_new_stories_entry (JInt 9) [(''time'', JStr ''noon''), (''type'', JStr ''story'')])
        ''time_iso'' = Some (JStr ''noon'')"
    using t [where d = "[(''time'', JStr ''noon''), (''type'', JStr ''story'')]" and story_id = "JInt 9"
        and v = "JStr ''noon''", THEN conjunct2, THEN conjunct2, THEN conjunct2, THEN conjunct1]
    by simp
  have 6: "json_field (search_stories_entry [(''objectID'', JStr ''102'')]) ''time_iso'' = Some (JStr '''')"
    using t [where hit = "[(''objectID'', JStr ''102'')]",
        THEN conjunct2, THEN conjunct2, THEN conjunct2, THEN conjunct2, THEN conjunct2, THEN conjunct2,
        THEN conjunct2]
    by simp
  from 1 2 3 4 5 6 show ?thesis by simp
qed

text \<open>
  An item with \<^verbatim>\<open>"time": null\<close>: the \<^verbatim>\<open>time\<close> field is there and is not 0, and
  \<^verbatim>\<open>get_top_stories\<close> returns it with \<^verbatim>\<open>time_iso\<close> \<^verbatim>\<open>None\<close>. So \<^verbatim>\<open>time_iso\<close> is not
  \<^verbatim>\<open>None\<close> only when \<^verbatim>\<open>time\<close> is missing or equals 0.
\<close>

theorem time_iso_null_time_counterexample:
  "fetch mock_null_time (item_request (JInt 7)) =
     Inr (JObj [(''id'', JInt 7), (''time'', JNull), (''type'', JStr ''story'')])
   \<and> map_of [(''id'', JInt 7), (''time'', JNull), (''type'', JStr ''story'')] ''time'' = Some JNull
   \<and> JNull \<noteq> JInt 0
   \<and> fst (get_top_stories mock_null_time 10) =
       JArr [JObj [(''id'', JInt 7), (''title'', JStr ''''),
                   (''url'', JStr ''https://news.ycombinator.com/item?id=7''), (''score'', JInt 0),
                   (''author'', JStr ''''), (''comments'', JInt 0), (''time'', JNull),
                   (''time_iso'', JNull)]]
   \<and> json_field
        (get_top_stories_entry (JInt 7) [(''id'', JInt 7), (''time'', JNull), (''type'', JStr ''story'')])
        ''time_iso'' = Some JNull"
  by (simp add: mock_null_time_top_stories eval_defs mock_null_time_def get_top_stories_entry_def
      dict_get_def py_and_def py_or_def)

end
